theory Spec2Isabelle
  imports Main "HOL-Library.Code_Target_Nat"
begin

section \<open>Text: Python strings as lists of Unicode code points\<close>

text \<open>
  A Python \<^verbatim>\<open>str\<close> is a sequence of Unicode code points. The headers of the sheets
  are Chinese, and \<^verbatim>\<open>strip\<close>, \<^verbatim>\<open>\s\<close> and \<^verbatim>\<open>\d\<close> work on code points, so a string
  is a list of code points here; literals of the source outside ASCII are written out
  as hexadecimal code points.
\<close>

type_synonym ustr = "nat list"

definition asc :: "string \<Rightarrow> ustr" where
  "asc s = map of_char s"

text \<open>
  \<^verbatim>\<open>str.isspace\<close> of one code point; \<^verbatim>\<open>str.strip()\<close> and the class \<^verbatim>\<open>\s\<close> of a
  \<^verbatim>\<open>str\<close> pattern both use it.
\<close>

definition isspace :: "nat \<Rightarrow> bool" where
  "isspace c \<longleftrightarrow>
     (0x09 \<le> c \<and> c \<le> 0x0D) \<or> (0x1C \<le> c \<and> c \<le> 0x20) \<or> c = 0x85 \<or> c = 0xA0 \<or>
     c = 0x1680 \<or> (0x2000 \<le> c \<and> c \<le> 0x200A) \<or> c = 0x2028 \<or> c = 0x2029 \<or>
     c = 0x202F \<or> c = 0x205F \<or> c = 0x3000"

definition strip :: "ustr \<Rightarrow> ustr" where
  "strip s = rev (dropWhile isspace (rev (dropWhile isspace s)))"

text \<open>
  \<^verbatim>\<open>str.lower()\<close>, code point by code point on the ASCII letters. The full Unicode
  mapping of the other code points never yields one of the letters of \<^verbatim>\<open>unnamed\<close>, so
  the only use of \<^verbatim>\<open>lower\<close> in the source, the prefix test of \<^verbatim>\<open>normalize_cell\<close>, is
  decided by the ASCII letters alone.
\<close>

definition lower_cp :: "nat \<Rightarrow> nat" where
  "lower_cp c = (if 0x41 \<le> c \<and> c \<le> 0x5A then c + 0x20 else c)"

definition lower :: "ustr \<Rightarrow> ustr" where
  "lower s = map lower_cp s"

definition startswith :: "ustr \<Rightarrow> ustr \<Rightarrow> bool" where
  "startswith s p \<longleftrightarrow> take (length p) s = p"

definition endswith :: "ustr \<Rightarrow> ustr \<Rightarrow> bool" where
  "endswith s p \<longleftrightarrow> length p \<le> length s \<and> drop (length s - length p) s = p"

text \<open>\<^verbatim>\<open>str(n)\<close> of an integer: decimal digits, a minus sign when negative.\<close>

fun str_nat :: "nat \<Rightarrow> ustr" where
  "str_nat n = (if n < 10 then [0x30 + n] else str_nat (n div 10) @ [0x30 + n mod 10])"

declare str_nat.simps [simp del]

definition str_int :: "int \<Rightarrow> ustr" where
  "str_int i = (if i < 0 then 0x2D # str_nat (nat (- i)) else str_nat (nat i))"

section \<open>Cells, rows and sheets\<close>

text \<open>
  \<^verbatim>\<open>read_excel(..., header=None, dtype=object)\<close> gives a rectangular grid of Python
  objects. A cell is the missing value (\<^verbatim>\<open>NaN\<close>, the one \<^verbatim>\<open>pd.isna\<close> accepts), a string,
  an integer, or another object (a float, a date, a boolean), which the program only ever
  reads through \<^verbatim>\<open>str\<close>: \<open>Obj t\<close> is such an object whose \<^verbatim>\<open>str\<close> is \<open>t\<close>.
\<close>

datatype cell = NaN | Str ustr | IntV int | Obj ustr

type_synonym row = "cell list"
type_synonym sheet = "row list"

fun isna :: "cell \<Rightarrow> bool" where
  "isna NaN = True"
| "isna _ = False"

fun py_str :: "cell \<Rightarrow> ustr" where
  "py_str NaN = asc ''nan''"
| "py_str (Str s) = s"
| "py_str (IntV i) = str_int i"
| "py_str (Obj t) = t"

text \<open>A sheet as \<^verbatim>\<open>read_excel\<close> returns it: every row has the width of the frame.\<close>

definition rect :: "nat \<Rightarrow> sheet \<Rightarrow> bool" where
  "rect w df \<longleftrightarrow> (\<forall>r \<in> set df. length r = w)"

section \<open>Header constants\<close>

definition h_xianghao :: ustr where "h_xianghao = [0x9879, 0x53F7]"
definition h_bianma :: ustr where "h_bianma = [0x5546, 0x54C1, 0x7F16, 0x7801]"
definition h_mingcheng :: ustr where "h_mingcheng = [0x5546, 0x54C1, 0x540D, 0x79F0]"
definition h_guige :: ustr where
  "h_guige = [0x7528, 0x9014, 0x89C4, 0x683C, 0x578B, 0x53F7, 0x7B49]"
definition h_shuliang :: ustr where "h_shuliang = [0x6570, 0x91CF, 0x53CA, 0x5355, 0x4F4D]"
definition h_huoyuandi :: ustr where "h_huoyuandi = [0x5883, 0x5185, 0x8D27, 0x6E90, 0x5730]"
definition h_mudiguo :: ustr where "h_mudiguo = [0x6700, 0x7EC8, 0x76EE, 0x7684, 0x56FD]"
definition h_yuanchanguo :: ustr where "h_yuanchanguo = [0x539F, 0x4EA7, 0x56FD]"
definition h_danjia :: ustr where "h_danjia = [0x5355, 0x4EF7]"
definition h_zongjia :: ustr where "h_zongjia = [0x603B, 0x4EF7]"
definition h_bizhi :: ustr where "h_bizhi = [0x5E01, 0x5236]"
definition h_pinpai :: ustr where "h_pinpai = [0x54C1, 0x724C, 0x7C7B, 0x578B]"
definition h_xianghui :: ustr where
  "h_xianghui = [0x51FA, 0x53E3, 0x4EAB, 0x60E0, 0x60C5, 0x51B5]"

text \<open>
  \<^verbatim>\<open>IN_HEADERS_EXPECT\<close>, the thirteen names in the order of the source: item number,
  goods code, goods name, use and specification, quantity and unit, domestic source,
  final destination country, country of origin, unit price, total price, currency,
  brand type, export preference.
\<close>

definition IN_HEADERS_EXPECT :: "ustr list" where
  "IN_HEADERS_EXPECT =
     [h_xianghao, h_bianma, h_mingcheng, h_guige, h_shuliang, h_huoyuandi, h_mudiguo,
      h_yuanchanguo, h_danjia, h_zongjia, h_bizhi, h_pinpai, h_xianghui]"

section \<open>Errors\<close>

text \<open>
  The exceptions the transformation can raise, as values:
  \<^item> \<open>HeaderNotFound hs\<close>: the \<^verbatim>\<open>KeyError\<close> of \<^verbatim>\<open>find_header_row\<close>, whose message
    holds the expected header list \<open>hs\<close>;
  \<^item> \<open>ValueError\<close>: \<^verbatim>\<open>list.index\<close> of an absent value, \<^verbatim>\<open>int\<close> of a NaN;
  \<^item> \<open>MissingColumn ls\<close>: the \<^verbatim>\<open>KeyError\<close> of selecting columns by labels of which
    \<open>ls\<close> are not in the columns;
  \<^item> \<open>IndexError\<close>: a positional column index outside the frame;
  \<^item> \<open>AttributeError\<close>: \<^verbatim>\<open>to_str\<close> on a frame of several columns of one label;
  \<^item> \<open>IOFailure m\<close>: what reading or writing a file raised, with its message.
\<close>

datatype error =
    HeaderNotFound "ustr list"
  | ValueError
  | MissingColumn "ustr list"
  | IndexError
  | AttributeError
  | IOFailure ustr

section \<open>Header Locator\<close>

definition normalize_cell :: "cell \<Rightarrow> ustr" where
  "normalize_cell v =
     (let s = (if isna v then [] else strip (py_str v))
      in if s = [] \<or> startswith (lower s) (asc ''unnamed'') then [] else s)"

definition normalize_row :: "row \<Rightarrow> ustr list" where
  "normalize_row values = [normalize_cell v. v \<leftarrow> values, normalize_cell v \<noteq> []]"

text \<open>
  The loop \<^verbatim>\<open>for i in range(len(df))\<close> of \<^verbatim>\<open>find_header_row\<close>: \<open>find_from rs e i\<close>
  scans the rows \<open>rs\<close> that start at index \<open>i\<close>.
\<close>

fun find_from :: "sheet \<Rightarrow> ustr list \<Rightarrow> nat \<Rightarrow> error + nat" where
  "find_from [] expected_headers i = Inl (HeaderNotFound expected_headers)"
| "find_from (r # rs) expected_headers i =
     (if normalize_row r = expected_headers then Inr i
      else find_from rs expected_headers (Suc i))"

definition find_header_row :: "sheet \<Rightarrow> ustr list \<Rightarrow> error + nat" where
  "find_header_row df expected_headers = find_from df expected_headers 0"

section \<open>Field Formatter: string normalisation\<close>

text \<open>
  \<^verbatim>\<open>to_str\<close> works on a column: \<^verbatim>\<open>astype('object')\<close>, \<^verbatim>\<open>fillna('')\<close>, \<^verbatim>\<open>astype(str)\<close>,
  \<^verbatim>\<open>str.strip()\<close>. A column is the list of its cells, from the first row to the last.

  \<^verbatim>\<open>fillna('')\<close> puts the empty string in the place of the missing cells. What pandas
  does to the column after that depends on its version. Before pandas 3, \<^verbatim>\<open>fillna\<close> on an
  object column ends with a soft conversion of the column, also when nothing was filled:
  a column whose values are all numbers becomes a numeric column, so that an integer
  beside a float is printed as a float. From pandas 3 on the column is left as it is.
  The source names no version, and the conversion is code of the library, so it is a
  parameter of the model: \<open>convert\<close> takes the filled column to the column of the objects
  that \<^verbatim>\<open>astype(str)\<close> prints. \<open>no_downcast\<close> is the conversion of pandas 3.
\<close>

type_synonym converter = "cell list \<Rightarrow> cell list"

definition no_downcast :: converter where
  "no_downcast s = s"

definition fill_empty :: "cell \<Rightarrow> cell" where
  "fill_empty v = (if isna v then Str [] else v)"

definition fillna :: "converter \<Rightarrow> cell list \<Rightarrow> cell list" where
  "fillna convert s = convert (map fill_empty s)"

definition to_str :: "converter \<Rightarrow> cell list \<Rightarrow> ustr list" where
  "to_str convert s = map (\<lambda>v. strip (py_str v)) (fillna convert s)"

section \<open>Field Formatter: the numeric pattern\<close>

text \<open>
  The decimal digits of Unicode (category Nd, Unicode 14.0 as in CPython 3.11): blocks of
  ten consecutive code points, listed by the code point of their zero. The class \<^verbatim>\<open>\d\<close>
  of a \<^verbatim>\<open>str\<close> pattern matches exactly these, and \<^verbatim>\<open>float\<close> reads each of them as its
  digit value.
\<close>

definition nd_zeros :: "nat list" where
  "nd_zeros =
     [0x30, 0x660, 0x6F0, 0x7C0, 0x966, 0x9E6, 0xA66, 0xAE6, 0xB66, 0xBE6, 0xC66, 0xCE6,
      0xD66, 0xDE6, 0xE50, 0xED0, 0xF20, 0x1040, 0x1090, 0x17E0, 0x1810, 0x1946, 0x19D0,
      0x1A80, 0x1A90, 0x1B50, 0x1BB0, 0x1C40, 0x1C50, 0xA620, 0xA8D0, 0xA900, 0xA9D0,
      0xA9F0, 0xAA50, 0xABF0, 0xFF10, 0x104A0, 0x10D30, 0x11066, 0x110F0, 0x11136,
      0x111D0, 0x112F0, 0x11450, 0x114D0, 0x11650, 0x116C0, 0x11730, 0x118E0, 0x11950,
      0x11C50, 0x11D50, 0x11DA0, 0x16A60, 0x16AC0, 0x16B50, 0x1D7CE, 0x1D7D8, 0x1D7E2,
      0x1D7EC, 0x1D7F6, 0x1E140, 0x1E2F0, 0x1E950, 0x1FBF0]"

definition todecimal :: "nat \<Rightarrow> nat option" where
  "todecimal c =
     (case find (\<lambda>z. z \<le> c \<and> c < z + 10) nd_zeros of
        Some z \<Rightarrow> Some (c - z)
      | None \<Rightarrow> None)"

definition isdecimal :: "nat \<Rightarrow> bool" where
  "isdecimal c \<longleftrightarrow> todecimal c \<noteq> None"

text \<open>
  Regular expressions over code points, matched by derivatives. A backtracking matcher
  without look-around or back-references finds a match of an anchored pattern exactly
  when the text is in the language of the pattern.
\<close>

datatype rx = Zero | One | Sym "nat \<Rightarrow> bool" | Alt rx rx | Seq rx rx | Star rx

definition Opt :: "rx \<Rightarrow> rx" where
  "Opt r = Alt r One"

definition Plus :: "rx \<Rightarrow> rx" where
  "Plus r = Seq r (Star r)"

fun nullable :: "rx \<Rightarrow> bool" where
  "nullable Zero = False"
| "nullable One = True"
| "nullable (Sym p) = False"
| "nullable (Alt r s) = (nullable r \<or> nullable s)"
| "nullable (Seq r s) = (nullable r \<and> nullable s)"
| "nullable (Star r) = True"

fun deriv :: "nat \<Rightarrow> rx \<Rightarrow> rx" where
  "deriv c Zero = Zero"
| "deriv c One = Zero"
| "deriv c (Sym p) = (if p c then One else Zero)"
| "deriv c (Alt r s) = Alt (deriv c r) (deriv c s)"
| "deriv c (Seq r s) =
     (if nullable r then Alt (Seq (deriv c r) s) (deriv c s) else Seq (deriv c r) s)"
| "deriv c (Star r) = Seq (deriv c r) (Star r)"

fun fullmatch :: "rx \<Rightarrow> ustr \<Rightarrow> bool" where
  "fullmatch r [] = nullable r"
| "fullmatch r (c # cs) = fullmatch (deriv c r) cs"

text \<open>
  The pattern of \<^verbatim>\<open>_num_re\<close> between its anchors:
  \<^verbatim>\<open>[+-]?(?:\d+(?:\.\d*)?|\.\d+)\<close>.
\<close>

definition num_body :: rx where
  "num_body =
     Seq (Opt (Sym (\<lambda>c. c = 0x2B \<or> c = 0x2D)))
         (Alt (Seq (Plus (Sym isdecimal))
                   (Opt (Seq (Sym (\<lambda>c. c = 0x2E)) (Star (Sym isdecimal)))))
              (Seq (Sym (\<lambda>c. c = 0x2E)) (Plus (Sym isdecimal))))"

text \<open>
  \<^verbatim>\<open>_num_re.match(x)\<close>: \<^verbatim>\<open>^\<close> is the start of the text, and \<^verbatim>\<open>$\<close> (without
  \<^verbatim>\<open>MULTILINE\<close>) is its end or the position before a final newline.
\<close>

definition num_re_match :: "ustr \<Rightarrow> bool" where
  "num_re_match x \<longleftrightarrow>
     fullmatch num_body x \<or> (x \<noteq> [] \<and> last x = 0x0A \<and> fullmatch num_body (butlast x))"

section \<open>Field Formatter: binary64 and the two-decimal format\<close>

text \<open>
  A Python \<^verbatim>\<open>float\<close> that \<^verbatim>\<open>float(x)\<close> can return on a decimal numeral: an infinity, or
  the finite value \<open>(-1)^s * m * 2^e\<close> of \<open>Finite s m e\<close>.
\<close>

datatype pyfloat = Finite bool nat int | Inf bool

text \<open>Division rounded to the nearest integer, ties to the even one.\<close>

definition rne_div :: "nat \<Rightarrow> nat \<Rightarrow> nat" where
  "rne_div a b =
     (let q = a div b; r = a mod b
      in if 2 * r < b \<or> (2 * r = b \<and> even q) then q else q + 1)"

fun bitlen :: "nat \<Rightarrow> nat" where
  "bitlen n = (if n = 0 then 0 else Suc (bitlen (n div 2)))"

declare bitlen.simps [simp del]

text \<open>
  The binary64 nearest to \<open>n / 10^k\<close>, ties to even, as \<^verbatim>\<open>float\<close> rounds a decimal
  numeral. \<open>e\<close> is the binary exponent of the quotient (\<open>2^e \<le> n / 10^k < 2^(e+1)\<close>);
  the significand has 53 bits (\<open>ex = e - 52\<close>) unless the value is subnormal
  (\<open>ex = -1074\<close>); a rounded value of \<open>2^1024\<close> or more is the infinity.
\<close>

definition to_double :: "bool \<Rightarrow> nat \<Rightarrow> nat \<Rightarrow> pyfloat" where
  "to_double neg n k =
     (if n = 0 then Finite neg 0 0
      else
        let d = 10 ^ k;
            e0 = int (bitlen n) - int (bitlen d);
            e = (if (if 0 \<le> e0 then d * 2 ^ nat e0 \<le> n else d \<le> n * 2 ^ nat (- e0))
                 then e0 else e0 - 1);
            ex = max (e - 52) (- 1074);
            m = (if 0 \<le> ex then rne_div n (d * 2 ^ nat ex)
                 else rne_div (n * 2 ^ nat (- ex)) d)
        in if 0 \<le> ex \<and> 2 ^ 1024 \<le> m * 2 ^ nat ex then Inf neg else Finite neg m ex)"

definition digits_val :: "ustr \<Rightarrow> nat" where
  "digits_val ds = foldl (\<lambda>a c. 10 * a + the (todecimal c)) 0 ds"

text \<open>
  \<^verbatim>\<open>float(x)\<close> on the decimal numerals: surrounding whitespace is ignored, then an
  optional sign, digits, and an optional point with digits, with a digit on at least one
  side of the point. \<open>None\<close> is the \<^verbatim>\<open>ValueError\<close>. \<^verbatim>\<open>float\<close> accepts further forms
  (exponents, \<^verbatim>\<open>inf\<close>, \<^verbatim>\<open>nan\<close>, underscores), none of which passes the guard
  \<^verbatim>\<open>_num_re.match\<close> in front of the only call.
\<close>

definition py_float :: "ustr \<Rightarrow> pyfloat option" where
  "py_float x =
     (let t = strip x;
          neg = (t \<noteq> [] \<and> hd t = 0x2D);
          u = (if t \<noteq> [] \<and> (hd t = 0x2D \<or> hd t = 0x2B) then tl t else t);
          ip = takeWhile isdecimal u;
          r = dropWhile isdecimal u;
          fp = (if r = [] then Some [] else if hd r = 0x2E then Some (tl r) else None)
      in case fp of
           None \<Rightarrow> None
         | Some f \<Rightarrow>
             if list_all isdecimal f \<and> (ip \<noteq> [] \<or> f \<noteq> [])
             then Some (to_double neg (digits_val (ip @ f)) (length f))
             else None)"

text \<open>
  The format \<^verbatim>\<open>f"{v:.2f}"\<close>: the exact value of the float rounded to hundredths, ties
  to even, printed with its sign bit; an infinity prints as \<^verbatim>\<open>inf\<close>.
\<close>

definition sign_str :: "bool \<Rightarrow> ustr" where
  "sign_str neg = (if neg then [0x2D] else [])"

fun fmt2f :: "pyfloat \<Rightarrow> ustr" where
  "fmt2f (Inf neg) = sign_str neg @ asc ''inf''"
| "fmt2f (Finite neg m ex) =
     (let cents = (if 0 \<le> ex then m * 2 ^ nat ex * 100 else rne_div (m * 100) (2 ^ nat (- ex)))
      in sign_str neg @ str_nat (cents div 100) @
         [0x2E, 0x30 + cents mod 100 div 10, 0x30 + cents mod 10])"

section \<open>Field Formatter: money normalisation and currency\<close>

text \<open>
  \<^verbatim>\<open>s.str.replace(r'[,$\s]', '', regex=True).str.replace('$', '', regex=False)\<close> on one
  text.
\<close>

definition money_strip :: "ustr \<Rightarrow> ustr" where
  "money_strip x =
     filter (\<lambda>c. c \<noteq> 0x24) (filter (\<lambda>c. \<not> (c = 0x2C \<or> c = 0x24 \<or> isspace c)) x)"

definition fmt :: "ustr \<Rightarrow> ustr" where
  "fmt x =
     (if num_re_match x
      then (case py_float x of Some v \<Rightarrow> fmt2f v | None \<Rightarrow> x)
      else x)"

text \<open>\<^verbatim>\<open>clean_money_keep2\<close> on a column: \<^verbatim>\<open>to_str\<close>, the two replacements, \<^verbatim>\<open>apply(fmt)\<close>.\<close>

definition clean_money_keep2 :: "converter \<Rightarrow> cell list \<Rightarrow> ustr list" where
  "clean_money_keep2 convert s = map fmt (map money_strip (to_str convert s))"

definition meiyuan :: ustr where
  "meiyuan = [0x7F8E, 0x5143]"

text \<open>
  \<^verbatim>\<open>x.replace({'USD': meiyuan})\<close> on a column of texts: a value is replaced when it
  equals the key.
\<close>

definition replace_usd :: "ustr list \<Rightarrow> ustr list" where
  "replace_usd x = map (\<lambda>t. if t = asc ''USD'' then meiyuan else t) x"

section \<open>Data Block Extractor\<close>

text \<open>\<^verbatim>\<open>in_all.dropna(how='all').index\<close>: the indices of the rows with a cell that is not missing.\<close>

definition non_empty_idx :: "sheet \<Rightarrow> nat list" where
  "non_empty_idx df = filter (\<lambda>i. \<not> list_all isna (df ! i)) [0..<length df]"

text \<open>
  \<^verbatim>\<open>int(non_empty_idx.max())\<close>: the maximum of an empty index is NaN, and \<^verbatim>\<open>int\<close> of it
  raises \<^verbatim>\<open>ValueError\<close>.
\<close>

definition last_non_empty :: "sheet \<Rightarrow> error + nat" where
  "last_non_empty df =
     (case non_empty_idx df of
        [] \<Rightarrow> Inl ValueError
      | i # is \<Rightarrow> Inr (fold max is i))"

text \<open>
  A slice \<^verbatim>\<open>xs[a:b]\<close> (and \<^verbatim>\<open>df.iloc[a:b]\<close> on the rows) for Python integers: a negative
  bound counts from the end, and both bounds are clipped to the length.
\<close>

definition py_slice :: "'a list \<Rightarrow> int \<Rightarrow> int \<Rightarrow> 'a list" where
  "py_slice xs a b =
     (let n = int (length xs);
          lo = (if a < 0 then max (a + n) 0 else min a n);
          hi = (if b < 0 then max (b + n) 0 else min b n)
      in drop (nat lo) (take (nat hi) xs))"

text \<open>\<^verbatim>\<open>xs.index(v)\<close>: the first position of \<open>v\<close>, or \<^verbatim>\<open>ValueError\<close>.\<close>

fun index_from :: "'a list \<Rightarrow> 'a \<Rightarrow> nat \<Rightarrow> error + nat" where
  "index_from [] v i = Inl ValueError"
| "index_from (x # xs) v i = (if x = v then Inr i else index_from xs v (Suc i))"

definition py_index :: "'a list \<Rightarrow> 'a \<Rightarrow> error + nat" where
  "py_index xs v = index_from xs v 0"

text \<open>
  The columns of \<^verbatim>\<open>in_data\<close> are labelled with the raw cells of the header row
  (\<^verbatim>\<open>in_data.columns = header_row_vals\<close>). \<open>get_locs\<close> gives the positions whose label
  is the string \<open>label\<close>.
\<close>

definition get_locs :: "row \<Rightarrow> ustr \<Rightarrow> nat list" where
  "get_locs columns label = filter (\<lambda>j. columns ! j = Str label) [0..<length columns]"

definition base_cols :: "ustr list" where
  "base_cols =
     [h_xianghao, h_bianma, h_mingcheng, h_guige, h_huoyuandi, h_mudiguo, h_yuanchanguo,
      h_danjia, h_zongjia, h_bizhi]"

text \<open>\<^verbatim>\<open>in_data[base_cols]\<close> raises \<^verbatim>\<open>KeyError\<close> when a label is on no column.\<close>

definition select_cols :: "row \<Rightarrow> ustr list \<Rightarrow> error + unit" where
  "select_cols columns labels =
     (let missing = filter (\<lambda>l. get_locs columns l = []) labels
      in if missing = [] then Inr () else Inl (MissingColumn missing))"

text \<open>
  \<^verbatim>\<open>to_str(frame[label])\<close>: \<^verbatim>\<open>frame[label]\<close> is one column when the label is on exactly
  one column; on several columns it is a frame, on which \<^verbatim>\<open>to_str\<close> raises
  \<^verbatim>\<open>AttributeError\<close>. The result is the position of the column.
\<close>

definition column :: "row \<Rightarrow> ustr \<Rightarrow> error + nat" where
  "column columns label =
     (case get_locs columns label of
        [] \<Rightarrow> Inl (MissingColumn [label])
      | [j] \<Rightarrow> Inr j
      | _ \<Rightarrow> Inl AttributeError)"

text \<open>\<^verbatim>\<open>in_all.iloc[a:b, j]\<close> raises \<^verbatim>\<open>IndexError\<close> when \<open>j\<close> is not a column of the frame.\<close>

definition iloc_col :: "row \<Rightarrow> nat \<Rightarrow> error + nat" where
  "iloc_col columns j = (if j < length columns then Inr j else Inl IndexError)"

section \<open>The transformation of one sheet\<close>

text \<open>
  An Output Record, its fields in the order of \<^verbatim>\<open>OUT_HEADERS\<close>: item number, goods
  number, name and model, quantity and unit, unit price / total price / currency,
  country of origin, final destination country, domestic source, levy or exemption.
\<close>

record out_rec =
  xianghao :: ustr
  bianhao :: ustr
  name_model :: ustr
  qty_unit :: ustr
  price_block :: ustr
  yuanchanguo :: ustr
  mudiguo :: ustr
  huoyuandi :: ustr
  zhengmian :: ustr

definition zhaozhang :: ustr where
  "zhaozhang = [0x7167, 0x7AE0]"

text \<open>Sequencing of steps that may raise: the first exception ends the computation.\<close>

definition then_e :: "error + 'a \<Rightarrow> ('a \<Rightarrow> error + 'b) \<Rightarrow> error + 'b" where
  "then_e m f = (case m of Inl e \<Rightarrow> Inl e | Inr x \<Rightarrow> f x)"

text \<open>
  The positions of the columns that the output is computed from, found in the header
  row.
\<close>

record cols =
  c_xianghao :: nat
  c_bianma :: nat
  c_mingcheng :: nat
  c_guige :: nat
  c_qty :: nat
  c_unit :: nat
  c_danjia :: nat
  c_zongjia :: nat
  c_bizhi :: nat
  c_yuanchanguo :: nat
  c_mudiguo :: nat
  c_huoyuandi :: nat

text \<open>
  The lookups of step 2 of \<^verbatim>\<open>process_file\<close>, in the order of the statements that can
  raise: \<^verbatim>\<open>header_row_vals.index\<close> of the quantity header, \<^verbatim>\<open>in_data[base_cols]\<close>, the
  name and specification columns, the positional quantity and unit columns, the price and
  currency columns, and the columns of the plain fields.
\<close>

definition resolve :: "row \<Rightarrow> error + cols" where
  "resolve header_row_vals =
     then_e (py_index header_row_vals (Str h_shuliang)) (\<lambda>qty_col.
     let unit_col = qty_col + 1 in
     then_e (select_cols header_row_vals base_cols) (\<lambda>_.
     then_e (column header_row_vals h_mingcheng) (\<lambda>mingcheng.
     then_e (column header_row_vals h_guige) (\<lambda>guige.
     then_e (iloc_col header_row_vals qty_col) (\<lambda>qty.
     then_e (iloc_col header_row_vals unit_col) (\<lambda>unit.
     then_e (column header_row_vals h_danjia) (\<lambda>danjia.
     then_e (column header_row_vals h_zongjia) (\<lambda>zongjia.
     then_e (column header_row_vals h_bizhi) (\<lambda>bizhi.
     then_e (column header_row_vals h_xianghao) (\<lambda>xianghao.
     then_e (column header_row_vals h_bianma) (\<lambda>bianma.
     then_e (column header_row_vals h_yuanchanguo) (\<lambda>yuanchanguo.
     then_e (column header_row_vals h_mudiguo) (\<lambda>mudiguo.
     then_e (column header_row_vals h_huoyuandi) (\<lambda>huoyuandi.
     Inr \<lparr> c_xianghao = xianghao, c_bianma = bianma, c_mingcheng = mingcheng,
           c_guige = guige, c_qty = qty, c_unit = unit, c_danjia = danjia,
           c_zongjia = zongjia, c_bizhi = bizhi, c_yuanchanguo = yuanchanguo,
           c_mudiguo = mudiguo, c_huoyuandi = huoyuandi \<rparr>))))))))))))))"

text \<open>
  The column at position \<open>j\<close> of the rows of a frame: \<^verbatim>\<open>frame[label]\<close> for the label at
  \<open>j\<close>, and \<^verbatim>\<open>in_all.iloc[a:b, j]\<close>.
\<close>

definition iloc_column :: "row list \<Rightarrow> nat \<Rightarrow> cell list" where
  "iloc_column rows j = map (\<lambda>r. r ! j) rows"

text \<open>
  \<^verbatim>\<open>out_df\<close> of \<^verbatim>\<open>process_file\<close> in \<^verbatim>\<open>ExcelTransform.py\<close>, from the rows of \<^verbatim>\<open>in_data\<close>
  and the columns found. The source computes it column by column; the sum of two columns
  of texts and the frame constructor work row by row, so the record of row \<open>k\<close> takes
  the entry \<open>k\<close> of each column. The price block joins unit price, total price and
  currency with single spaces.
\<close>

definition out_df_Excel :: "converter \<Rightarrow> cols \<Rightarrow> row list \<Rightarrow> out_rec list" where
  "out_df_Excel convert cs in_data =
     (let name_model = (\<lambda>k.
            to_str convert (iloc_column in_data (c_mingcheng cs)) ! k @ asc '' '' @
            to_str convert (iloc_column in_data (c_guige cs)) ! k);
          qty_series = to_str convert (iloc_column in_data (c_qty cs));
          unit_series = to_str convert (iloc_column in_data (c_unit cs));
          qty_unit = (\<lambda>k. qty_series ! k @ unit_series ! k);
          unit_price = clean_money_keep2 convert (iloc_column in_data (c_danjia cs));
          total_price = clean_money_keep2 convert (iloc_column in_data (c_zongjia cs));
          currency = replace_usd (to_str convert (iloc_column in_data (c_bizhi cs)));
          price_block = (\<lambda>k.
            unit_price ! k @ asc '' '' @ total_price ! k @ asc '' '' @ currency ! k)
      in map (\<lambda>k.
           \<lparr> xianghao = to_str convert (iloc_column in_data (c_xianghao cs)) ! k,
             bianhao = to_str convert (iloc_column in_data (c_bianma cs)) ! k,
             name_model = name_model k,
             qty_unit = qty_unit k,
             price_block = price_block k,
             yuanchanguo = to_str convert (iloc_column in_data (c_yuanchanguo cs)) ! k,
             mudiguo = to_str convert (iloc_column in_data (c_mudiguo cs)) ! k,
             huoyuandi = to_str convert (iloc_column in_data (c_huoyuandi cs)) ! k,
             zhengmian = zhaozhang \<rparr>) [0..<length in_data])"

text \<open>
  \<^verbatim>\<open>out_df\<close> of the loop body of \<^verbatim>\<open>ExcleTransform.py\<close>: the price block has a slash
  between spaces after the unit price.
\<close>

definition out_df_Excle :: "converter \<Rightarrow> cols \<Rightarrow> row list \<Rightarrow> out_rec list" where
  "out_df_Excle convert cs in_data =
     (let name_model = (\<lambda>k.
            to_str convert (iloc_column in_data (c_mingcheng cs)) ! k @ asc '' '' @
            to_str convert (iloc_column in_data (c_guige cs)) ! k);
          qty_series = to_str convert (iloc_column in_data (c_qty cs));
          unit_series = to_str convert (iloc_column in_data (c_unit cs));
          qty_unit = (\<lambda>k. qty_series ! k @ unit_series ! k);
          unit_price = clean_money_keep2 convert (iloc_column in_data (c_danjia cs));
          total_price = clean_money_keep2 convert (iloc_column in_data (c_zongjia cs));
          currency = replace_usd (to_str convert (iloc_column in_data (c_bizhi cs)));
          price_block = (\<lambda>k.
            unit_price ! k @ asc '' / '' @ total_price ! k @ asc '' '' @ currency ! k)
      in map (\<lambda>k.
           \<lparr> xianghao = to_str convert (iloc_column in_data (c_xianghao cs)) ! k,
             bianhao = to_str convert (iloc_column in_data (c_bianma cs)) ! k,
             name_model = name_model k,
             qty_unit = qty_unit k,
             price_block = price_block k,
             yuanchanguo = to_str convert (iloc_column in_data (c_yuanchanguo cs)) ! k,
             mudiguo = to_str convert (iloc_column in_data (c_mudiguo cs)) ! k,
             huoyuandi = to_str convert (iloc_column in_data (c_huoyuandi cs)) ! k,
             zhengmian = zhaozhang \<rparr>) [0..<length in_data])"

text \<open>
  Steps 1 and 2 of \<^verbatim>\<open>process_file\<close> in \<^verbatim>\<open>ExcelTransform.py\<close>, from the sheet read to
  \<^verbatim>\<open>out_df\<close>.
\<close>

definition transform_Excel :: "converter \<Rightarrow> sheet \<Rightarrow> error + out_rec list" where
  "transform_Excel convert in_all =
     then_e (find_header_row in_all IN_HEADERS_EXPECT) (\<lambda>row_in_header.
     then_e (last_non_empty in_all) (\<lambda>last.
     let end_idx = int last - 1;
         header_row_vals = in_all ! row_in_header;
         in_data = py_slice in_all (int row_in_header + 1) (end_idx + 1)
     in
     then_e (resolve header_row_vals) (\<lambda>cs.
     Inr (out_df_Excel convert cs in_data))))"

text \<open>Steps 1 and 2 of the loop body of \<^verbatim>\<open>ExcleTransform.py\<close>.\<close>

definition transform_Excle :: "converter \<Rightarrow> sheet \<Rightarrow> error + out_rec list" where
  "transform_Excle convert in_all =
     then_e (find_header_row in_all IN_HEADERS_EXPECT) (\<lambda>row_in_header.
     then_e (last_non_empty in_all) (\<lambda>last.
     let end_idx = int last - 1;
         header_row_vals = in_all ! row_in_header;
         in_data = py_slice in_all (int row_in_header + 1) (end_idx + 1)
     in
     then_e (resolve header_row_vals) (\<lambda>cs.
     Inr (out_df_Excle convert cs in_data))))"

text \<open>
  The text between unit price and total price in \<^verbatim>\<open>ExcelTransform.py\<close> and in
  \<^verbatim>\<open>ExcleTransform.py\<close>, for the examples.
\<close>

definition sep_Excel :: ustr where
  "sep_Excel = asc '' ''"

definition sep_Excle :: ustr where
  "sep_Excle = asc '' / ''"

section \<open>Files and the scan\<close>

text \<open>
  A directory entry that the glob \<^verbatim>\<open>*.xls*\<close> yields: its name, whether it is a
  directory, what \<^verbatim>\<open>read_excel_any\<close> returns or raises for its waybill sheet, and what
  writing the output beside it raises, if anything.
\<close>

record xlfile =
  fname :: ustr
  is_dir :: bool
  read_excel_any :: "error + sheet"
  to_excel :: "error option"

text \<open>\<^verbatim>\<open>Path.stem\<close>: the name without its last suffix.\<close>

definition stem :: "ustr \<Rightarrow> ustr" where
  "stem name =
     (if 0x2E \<in> set name
      then (let k = length (takeWhile (\<lambda>c. c \<noteq> 0x2E) (rev name));
                i = length name - k - 1
            in if 0 < i \<and> 0 < k then take i name else name)
      else name)"

text \<open>
  The message of a processed file,
  \<^verbatim>\<open>f"<check> {f.name} -> {save_path.name} ({len(out_df)} <rows>)"\<close>, where the output is
  saved under the stem of the name followed by \<^verbatim>\<open>_transformed.xlsx\<close>.
\<close>

definition done_line :: "xlfile \<Rightarrow> out_rec list \<Rightarrow> ustr" where
  "done_line f out_df =
     (let save_name = stem (fname f) @ asc ''_transformed.xlsx''
      in [0x2713, 0x20] @ fname f @ asc '' -> '' @ save_name @ asc '' ('' @
         str_nat (length out_df) @ [0x20, 0x884C, 0x29])"

text \<open>
  \<^verbatim>\<open>process_file\<close> of \<^verbatim>\<open>ExcelTransform.py\<close>: read the sheet, transform it, write the
  output, return the message. The result holds the message and the sheet written.
\<close>

definition process_file :: "converter \<Rightarrow> xlfile \<Rightarrow> error + ustr \<times> out_rec list" where
  "process_file convert f =
     then_e (read_excel_any f) (\<lambda>in_all.
     then_e (transform_Excel convert in_all) (\<lambda>out_df.
     case to_excel f of
       Some e \<Rightarrow> Inl e
     | None \<Rightarrow> Inr (done_line f out_df, out_df)))"

text \<open>The statements inside \<^verbatim>\<open>try\<close> of the loop of \<^verbatim>\<open>ExcleTransform.py\<close>.\<close>

definition process_Excle :: "converter \<Rightarrow> xlfile \<Rightarrow> error + ustr \<times> out_rec list" where
  "process_Excle convert f =
     then_e (read_excel_any f) (\<lambda>in_all.
     then_e (transform_Excle convert in_all) (\<lambda>out_df.
     case to_excel f of
       Some e \<Rightarrow> Inl e
     | None \<Rightarrow> Inr (done_line f out_df, out_df)))"

text \<open>
  The line of a failed file, \<^verbatim>\<open>f"<cross> {f.name} <failed>: {e}"\<close>. The text of an
  exception, \<^verbatim>\<open>str(e)\<close>, belongs to the libraries that raise it and is the parameter
  \<open>estr\<close>.
\<close>

definition fail_line :: "(error \<Rightarrow> ustr) \<Rightarrow> xlfile \<Rightarrow> error \<Rightarrow> ustr" where
  "fail_line estr f e = [0x2717, 0x20] @ fname f @ [0x20, 0x5931, 0x8D25, 0x3A, 0x20] @ estr e"

definition skipped :: "xlfile \<Rightarrow> bool" where
  "skipped f \<longleftrightarrow>
     is_dir f \<or> endswith (fname f) (asc ''_transformed.xlsx'') \<or> startswith (fname f) (asc ''~$'')"

text \<open>
  The loop over the entries of one directory, with \<^verbatim>\<open>try\<close> and \<^verbatim>\<open>except Exception\<close>
  around the statements \<open>body\<close> that process a file; \<open>results\<close> is the list the loop
  appends to.
\<close>

fun scan ::
  "(error \<Rightarrow> ustr) \<Rightarrow> (xlfile \<Rightarrow> error + ustr \<times> out_rec list) \<Rightarrow> xlfile list \<Rightarrow> ustr list \<Rightarrow>
   ustr list" where
  "scan estr body [] results = results"
| "scan estr body (f # fs) results =
     (if skipped f then scan estr body fs results
      else case body f of
             Inr (msg, out_df) \<Rightarrow> scan estr body fs (results @ [msg])
           | Inl e \<Rightarrow> scan estr body fs (results @ [fail_line estr f e]))"

text \<open>\<^verbatim>\<open>main\<close> of \<^verbatim>\<open>ExcelTransform.py\<close>: the loop over \<^verbatim>\<open>SEARCH_DIRS\<close>.\<close>

fun main_loop ::
  "(error \<Rightarrow> ustr) \<Rightarrow> converter \<Rightarrow> xlfile list list \<Rightarrow> ustr list \<Rightarrow> ustr list" where
  "main_loop estr convert [] results = results"
| "main_loop estr convert (base # bases) results =
     main_loop estr convert bases (scan estr (process_file convert) base results)"

definition main :: "(error \<Rightarrow> ustr) \<Rightarrow> converter \<Rightarrow> xlfile list list \<Rightarrow> ustr list" where
  "main estr convert search_dirs = main_loop estr convert search_dirs []"

text \<open>The main loop of \<^verbatim>\<open>ExcleTransform.py\<close>, over the entries of \<^verbatim>\<open>BASE_DIR\<close>.\<close>

definition main_Excle :: "(error \<Rightarrow> ustr) \<Rightarrow> converter \<Rightarrow> xlfile list \<Rightarrow> ustr list" where
  "main_Excle estr convert base_dir = scan estr (process_Excle convert) base_dir []"

section \<open>Predicates of the specification\<close>

text \<open>
  A filler cell, in the words of the specification: a cell that is missing, blank after
  trimming, or a placeholder whose trimmed text begins with \<^verbatim>\<open>unnamed\<close> in any case.
\<close>

definition filler :: "cell \<Rightarrow> bool" where
  "filler v \<longleftrightarrow>
     isna v \<or> strip (py_str v) = [] \<or> startswith (lower (strip (py_str v))) (asc ''unnamed'')"






text \<open>
  The status line of one candidate file, for the statements \<open>body\<close> that process it:
  their message, or the line of the failure when they raised.
\<close>

definition status_line ::
  "(error \<Rightarrow> ustr) \<Rightarrow> (xlfile \<Rightarrow> error + ustr \<times> out_rec list) \<Rightarrow> xlfile \<Rightarrow> ustr" where
  "status_line estr body f =
     (case body f of
        Inr (msg, out_df) \<Rightarrow> msg
      | Inl e \<Rightarrow> fail_line estr f e)"


section \<open>Example sheets\<close>

text \<open>
  A sheet of width 15: a title row, the header row at index 1 with a missing cell in
  front and a placeholder in the unit column, three data rows, a closing row and a blank
  row.
\<close>

definition ex_header :: row where
  "ex_header =
     [NaN, Str h_xianghao, Str h_bianma, Str h_mingcheng, Str h_guige, Str h_shuliang,
      Str (asc ''Unnamed: 6''), Str h_huoyuandi, Str h_mudiguo, Str h_yuanchanguo,
      Str h_danjia, Str h_zongjia, Str h_bizhi, Str h_pinpai, Str h_xianghui]"

definition ex_blank :: row where
  "ex_blank = replicate 15 NaN"

definition ex_row1 :: row where
  "ex_row1 =
     [NaN, IntV 1, Str (asc ''8471''), Str (asc ''Laptop''), Str (asc '' 14 inch''), IntV 10,
      Str (asc ''PCS''), Str (asc ''Shenzhen''), Str (asc ''USA''), Str (asc ''China''),
      Str (asc ''1,234.5''), Str (asc ''$12345''), Str (asc ''USD''), Str (asc ''none''),
      Str (asc ''no'')]"

definition ex_row2 :: row where
  "ex_row2 =
     [NaN, IntV 2, IntV 8542, Str (asc ''Chip''), NaN, Str (asc ''2.5''),
      Str (asc ''KG''), Str (asc ''Suzhou''), Str (asc ''Japan''), Str (asc ''China''),
      Str (asc ''N/A''), Str (asc ''-0.1''), Str (asc ''usd''), NaN, NaN]"

definition ex_row3 :: row where
  "ex_row3 =
     [NaN, IntV 3, IntV 9403, Str (asc ''Desk''), Str (asc ''oak''), IntV 4,
      NaN, Str (asc ''Foshan''), Str (asc ''Chile''), Str (asc ''China''),
      IntV 10, Str (asc ''40''), Str (asc ''EUR''), NaN, NaN]"

definition ex_sheet :: sheet where
  "ex_sheet =
     [Str (asc ''Waybill'') # replicate 14 NaN, ex_header, ex_row1, ex_row2, ex_row3,
      Str (asc ''Total'') # replicate 14 NaN, ex_blank]"

text \<open>
  The same sheet with a space in front of the unit price header: the header row still
  matches after normalisation, and no column is labelled with the unit price name.
\<close>

definition ex_sheet_padded :: sheet where
  "ex_sheet_padded =
     [Str (asc ''Waybill'') # replicate 14 NaN,
      ex_header[10 := Str (0x20 # h_danjia)], ex_row1, ex_row2, ex_row3,
      Str (asc ''Total'') # replicate 14 NaN, ex_blank]"

text \<open>
  The same sheet with a space behind the quantity header: \<^verbatim>\<open>list.index\<close> finds no cell
  equal to the name.
\<close>

definition ex_sheet_padded_qty :: sheet where
  "ex_sheet_padded_qty =
     [Str (asc ''Waybill'') # replicate 14 NaN,
      ex_header[5 := Str (h_shuliang @ [0x20])], ex_row1, ex_row2, ex_row3,
      Str (asc ''Total'') # replicate 14 NaN, ex_blank]"

text \<open>The Output Sheet of \<open>ex_sheet\<close>, for a separator \<open>sep\<close>.\<close>

definition ex_out :: "ustr \<Rightarrow> out_rec list" where
  "ex_out sep =
     [\<lparr> xianghao = asc ''1'', bianhao = asc ''8471'', name_model = asc ''Laptop 14 inch'',
        qty_unit = asc ''10PCS'',
        price_block = asc ''1234.50'' @ sep @ asc ''12345.00'' @ asc '' '' @ meiyuan,
        yuanchanguo = asc ''China'', mudiguo = asc ''USA'', huoyuandi = asc ''Shenzhen'',
        zhengmian = zhaozhang \<rparr>,
      \<lparr> xianghao = asc ''2'', bianhao = asc ''8542'', name_model = asc ''Chip '',
        qty_unit = asc ''2.5KG'',
        price_block = asc ''N/A'' @ sep @ asc ''-0.10'' @ asc '' usd'',
        yuanchanguo = asc ''China'', mudiguo = asc ''Japan'', huoyuandi = asc ''Suzhou'',
        zhengmian = zhaozhang \<rparr>,
      \<lparr> xianghao = asc ''3'', bianhao = asc ''9403'', name_model = asc ''Desk oak'',
        qty_unit = asc ''4'',
        price_block = asc ''10.00'' @ sep @ asc ''40.00'' @ asc '' EUR'',
        yuanchanguo = asc ''China'', mudiguo = asc ''Chile'', huoyuandi = asc ''Foshan'',
        zhengmian = zhaozhang \<rparr>]"

text \<open>A file that holds \<open>ex_sheet\<close>, one that holds \<open>ex_sheet_padded\<close>, and one without a header.\<close>

definition ex_file :: xlfile where
  "ex_file = \<lparr> fname = asc ''a.xlsx'', is_dir = False, read_excel_any = Inr ex_sheet,
                to_excel = None \<rparr>"

definition ex_file_padded :: xlfile where
  "ex_file_padded = \<lparr> fname = asc ''b.xls'', is_dir = False,
                       read_excel_any = Inr ex_sheet_padded, to_excel = None \<rparr>"

definition ex_file_no_header :: xlfile where
  "ex_file_no_header = \<lparr> fname = asc ''c.xlsx'', is_dir = False,
                          read_excel_any = Inr [ex_row1, ex_blank], to_excel = None \<rparr>"

text \<open>A text for each exception, for the examples.\<close>

fun ex_estr :: "error \<Rightarrow> ustr" where
  "ex_estr (HeaderNotFound hs) = asc ''no header''"
| "ex_estr (MissingColumn ls) = asc ''not in index''"
| "ex_estr e = asc ''error''"

text \<open>A sheet that ends with its header row.\<close>

definition ex_sheet_header_only :: sheet where
  "ex_sheet_header_only = [Str (asc ''Waybill'') # replicate 14 NaN, ex_header]"

section \<open>Header Locator: proofs\<close>

lemma normalize_cell_filler: "normalize_cell v = (if filler v then [] else strip (py_str v))"
  by (auto simp: normalize_cell_def filler_def Let_def)

lemma normalize_row_filler:
  "normalize_row r = map (\<lambda>v. strip (py_str v)) (filter (\<lambda>v. \<not> filler v) r)"
proof -
  have a: "normalize_cell v \<noteq> [] \<longleftrightarrow> \<not> filler v" for v
    by (auto simp: normalize_cell_def filler_def Let_def)
  have b: "\<not> filler v \<Longrightarrow> normalize_cell v = strip (py_str v)" for v
    by (simp add: normalize_cell_filler)
  show ?thesis
    unfolding normalize_row_def by (induction r) (simp_all add: a b)
qed

lemma find_from_Inr:
  "find_from rs e k = Inr i \<Longrightarrow>
     \<exists>n<length rs. i = k + n \<and> normalize_row (rs ! n) = e \<and> (\<forall>j<n. normalize_row (rs ! j) \<noteq> e)"
proof (induction rs arbitrary: k)
  case Nil
  then show ?case by simp
next
  case (Cons r rs)
  show ?case
  proof (cases "normalize_row r = e")
    case True
    with Cons.prems have "i = k" by simp
    with True show ?thesis by (intro exI[of _ 0]) simp
  next
    case False
    with Cons.prems have "find_from rs e (Suc k) = Inr i" by simp
    from Cons.IH[OF this] obtain n where n: "n < length rs" "i = Suc k + n"
      "normalize_row (rs ! n) = e" "\<forall>j<n. normalize_row (rs ! j) \<noteq> e" by blast
    have "\<forall>j<Suc n. normalize_row ((r # rs) ! j) \<noteq> e"
      using False n(4) by (auto simp: less_Suc_eq_0_disj)
    with n show ?thesis by (intro exI[of _ "Suc n"]) simp
  qed
qed

lemma find_from_Inl:
  "find_from rs e k = Inl err \<Longrightarrow> err = HeaderNotFound e \<and> (\<forall>r\<in>set rs. normalize_row r \<noteq> e)"
  by (induction rs arbitrary: k) (auto split: if_splits)

lemma find_header_row_Inr:
  "find_header_row df e = Inr i \<Longrightarrow>
     i < length df \<and> normalize_row (df ! i) = e \<and> (\<forall>j<i. normalize_row (df ! j) \<noteq> e)"
  unfolding find_header_row_def by (drule find_from_Inr) auto

lemma find_header_row_Inl:
  "find_header_row df e = Inl err \<Longrightarrow> err = HeaderNotFound e \<and> (\<forall>r\<in>set df. normalize_row r \<noteq> e)"
  unfolding find_header_row_def by (rule find_from_Inl)

lemmas hdr_defs = h_xianghao_def h_bianma_def h_mingcheng_def h_guige_def h_shuliang_def
  h_huoyuandi_def h_mudiguo_def h_yuanchanguo_def h_danjia_def h_zongjia_def h_bizhi_def
  h_pinpai_def h_xianghui_def

lemma strip_expected: "map strip IN_HEADERS_EXPECT = IN_HEADERS_EXPECT"
  by (simp add: IN_HEADERS_EXPECT_def hdr_defs strip_def isspace_def)

lemma ex_find: "find_header_row ex_sheet IN_HEADERS_EXPECT = Inr 1"
  by code_simp

lemma ex_header_fillers: "filter (\<lambda>v. \<not> filler v) ex_header = map Str IN_HEADERS_EXPECT"
  by code_simp

text \<open>
  C1. On every sheet the Header Locator returns the index of the first row whose
  normalised cells equal the thirteen expected headers, and fails with the error that
  carries the expected list when no row does. The normalised cells of a row are the
  trimmed texts of its cells that are not fillers, in order; so a row whose cells, the
  fillers apart, are the thirteen expected values matches.
\<close>

theorem header_locator_first_match:
  "(case find_header_row df IN_HEADERS_EXPECT of
      Inr i \<Rightarrow> i < length df \<and> normalize_row (df ! i) = IN_HEADERS_EXPECT \<and>
               (\<forall>j<i. normalize_row (df ! j) \<noteq> IN_HEADERS_EXPECT)
    | Inl e \<Rightarrow> e = HeaderNotFound IN_HEADERS_EXPECT \<and>
               (\<forall>r\<in>set df. normalize_row r \<noteq> IN_HEADERS_EXPECT)) \<and>
   length IN_HEADERS_EXPECT = 13 \<and>
   normalize_row r = map (\<lambda>v. strip (py_str v)) (filter (\<lambda>v. \<not> filler v) r) \<and>
   (filter (\<lambda>v. \<not> filler v) r = map Str IN_HEADERS_EXPECT \<longrightarrow>
      normalize_row r = IN_HEADERS_EXPECT)"
proof -
  have "normalize_row r = IN_HEADERS_EXPECT"
    if "filter (\<lambda>v. \<not> filler v) r = map Str IN_HEADERS_EXPECT"
    using that strip_expected by (simp add: normalize_row_filler comp_def map_idI)
  moreover have "length IN_HEADERS_EXPECT = 13"
    by (simp add: IN_HEADERS_EXPECT_def)
  ultimately show ?thesis
    using find_header_row_Inr[of df IN_HEADERS_EXPECT] find_header_row_Inl[of df IN_HEADERS_EXPECT]
    by (auto simp: normalize_row_filler split: sum.splits)
qed

theorem header_locator_first_match_witness:
  "find_header_row ex_sheet IN_HEADERS_EXPECT = Inr 1 \<and>
   normalize_row (ex_sheet ! 0) \<noteq> IN_HEADERS_EXPECT \<and>
   filter (\<lambda>v. \<not> filler v) ex_header = map Str IN_HEADERS_EXPECT \<and>
   normalize_row ex_header = IN_HEADERS_EXPECT"
proof -
  note t = header_locator_first_match[of ex_sheet ex_header]
  from t ex_header_fillers have "normalize_row ex_header = IN_HEADERS_EXPECT"
    by blast
  moreover from t have "normalize_row (ex_sheet ! 0) \<noteq> IN_HEADERS_EXPECT"
    by (simp add: ex_find)
  ultimately show ?thesis
    using ex_find ex_header_fillers by blast
qed

section \<open>Sequencing, slices and lookups\<close>

lemma then_e_Inl [simp]: "then_e (Inl e) f = Inl e"
  by (simp add: then_e_def)

lemma then_e_Inr [simp]: "then_e (Inr x) f = f x"
  by (simp add: then_e_def)

lemma then_e_eq_Inr: "then_e m f = Inr y \<longleftrightarrow> (\<exists>x. m = Inr x \<and> f x = Inr y)"
  by (cases m) simp_all

lemma then_e_eq_Inl: "then_e m f = Inl e \<longleftrightarrow> m = Inl e \<or> (\<exists>x. m = Inr x \<and> f x = Inl e)"
  by (cases m) simp_all

lemma py_slice_nat: "py_slice xs (int a) (int b) = drop a (take b xs)"
proof -
  have a: "nat (min (int a) (int (length xs))) = min a (length xs)"
    and b: "nat (min (int b) (int (length xs))) = min b (length xs)"
    by (simp_all add: min_def)
  have "drop (min a (length xs)) (take b xs) = drop a (take b xs)"
    by (cases "a \<le> length xs") (simp_all add: min_def)
  moreover have "take (min b (length xs)) xs = take b xs"
    by (cases "b \<le> length xs") (simp_all add: min_def)
  ultimately show ?thesis
    by (simp add: py_slice_def Let_def a b)
qed

lemma drop_take_nth: "b \<le> length xs \<Longrightarrow> drop a (take b xs) = map (\<lambda>i. xs ! i) [a..<b]"
  by (rule nth_equalityI) simp_all

lemma index_from_Inr:
  "index_from xs v k = Inr i \<Longrightarrow>
     \<exists>n<length xs. i = k + n \<and> xs ! n = v \<and> (\<forall>j<n. xs ! j \<noteq> v)"
proof (induction xs arbitrary: k)
  case Nil
  then show ?case by simp
next
  case (Cons x xs)
  show ?case
  proof (cases "x = v")
    case True
    with Cons.prems have "i = k" by simp
    with True show ?thesis by (intro exI[of _ 0]) simp
  next
    case False
    with Cons.prems have "index_from xs v (Suc k) = Inr i" by simp
    from Cons.IH[OF this] obtain n where n: "n < length xs" "i = Suc k + n"
      "xs ! n = v" "\<forall>j<n. xs ! j \<noteq> v" by blast
    have "\<forall>j<Suc n. (x # xs) ! j \<noteq> v"
      using False n(4) by (auto simp: less_Suc_eq_0_disj)
    with n show ?thesis by (intro exI[of _ "Suc n"]) simp
  qed
qed

lemma index_from_Inl: "index_from xs v k = Inl e \<Longrightarrow> e = ValueError"
  by (induction xs arbitrary: k) (auto split: if_splits)

lemma py_index_Inr:
  "py_index xs v = Inr q \<Longrightarrow> q < length xs \<and> xs ! q = v \<and> (\<forall>j<q. xs ! j \<noteq> v)"
  unfolding py_index_def by (drule index_from_Inr) auto

lemma py_index_Inl: "py_index xs v = Inl e \<Longrightarrow> e = ValueError"
  unfolding py_index_def by (rule index_from_Inl)

lemma set_get_locs: "set (get_locs hdr l) = {j. j < length hdr \<and> hdr ! j = Str l}"
  by (auto simp: get_locs_def)

lemma column_Inr:
  assumes "column hdr l = Inr j"
  shows "j < length hdr \<and> hdr ! j = Str l \<and> (\<forall>i<length hdr. hdr ! i = Str l \<longrightarrow> i = j)"
proof -
  from assms have "get_locs hdr l = [j]"
    by (auto simp: column_def split: list.splits)
  then have "set (get_locs hdr l) = {j}" by simp
  then have "{i. i < length hdr \<and> hdr ! i = Str l} = {j}"
    by (simp add: set_get_locs)
  then show ?thesis by blast
qed

lemma column_Inl: "column hdr l = Inl e \<Longrightarrow> e \<noteq> IndexError"
  by (auto simp: column_def split: list.splits)

lemma select_cols_Inl: "select_cols hdr ls = Inl e \<Longrightarrow> e \<noteq> IndexError"
  by (auto simp: select_cols_def Let_def split: if_splits)

section \<open>The last non-blank row\<close>

lemma set_non_empty_idx:
  "set (non_empty_idx df) = {i. i < length df \<and> \<not> list_all isna (df ! i)}"
  by (auto simp: non_empty_idx_def)

lemma last_non_empty_Inr:
  assumes "last_non_empty df = Inr l"
  shows "l < length df \<and> \<not> list_all isna (df ! l) \<and>
         (\<forall>i<length df. \<not> list_all isna (df ! i) \<longrightarrow> i \<le> l)"
proof -
  from assms obtain i "is" where ne: "non_empty_idx df = i # is" and l: "l = fold max is i"
    by (auto simp: last_non_empty_def split: list.splits)
  let ?S = "set (non_empty_idx df)"
  have "Max (set (i # is)) = fold max is i" by (rule Max.set_eq_fold)
  then have l': "l = Max ?S" using ne l by simp
  have fin: "finite ?S" and nonempty: "?S \<noteq> {}" using ne by simp_all
  have "l \<in> ?S" unfolding l' by (rule Max_in[OF fin nonempty])
  moreover have "j \<le> l" if "j \<in> ?S" for j
    unfolding l' using fin that by (rule Max_ge)
  ultimately show ?thesis
    unfolding set_non_empty_idx by blast
qed

lemma last_non_empty_Inl:
  "last_non_empty df = Inl e \<Longrightarrow> e = ValueError \<and> (\<forall>i<length df. list_all isna (df ! i))"
proof -
  assume "last_non_empty df = Inl e"
  then have "e = ValueError" and "non_empty_idx df = []"
    by (auto simp: last_non_empty_def split: list.splits)
  then have "set (non_empty_idx df) = {}" by simp
  with \<open>e = ValueError\<close> show ?thesis
    unfolding set_non_empty_idx by blast
qed

lemma normalize_row_blank: "list_all isna r \<Longrightarrow> normalize_row r = []"
  by (simp add: normalize_row_filler filter_empty_conv list_all_iff filler_def)

lemma expected_nonempty: "IN_HEADERS_EXPECT \<noteq> []"
  by (simp add: IN_HEADERS_EXPECT_def)

lemma header_row_non_blank:
  "find_header_row df IN_HEADERS_EXPECT = Inr h \<Longrightarrow> h < length df \<and> \<not> list_all isna (df ! h)"
  using find_header_row_Inr[of df IN_HEADERS_EXPECT h] normalize_row_blank[of "df ! h"]
    expected_nonempty by auto

lemma last_after_header:
  assumes "find_header_row df IN_HEADERS_EXPECT = Inr h"
  shows "\<exists>l. last_non_empty df = Inr l \<and> h \<le> l \<and> l < length df"
proof (cases "last_non_empty df")
  case (Inl e)
  with last_non_empty_Inl[OF Inl] header_row_non_blank[OF assms] show ?thesis by blast
next
  case (Inr l)
  with last_non_empty_Inr[OF Inr] header_row_non_blank[OF assms] show ?thesis by auto
qed

section \<open>The lookups in the header row\<close>

lemma resolve_Inr:
  assumes "resolve hdr = Inr cs"
  shows "py_index hdr (Str h_shuliang) = Inr (c_qty cs) \<and> c_unit cs = Suc (c_qty cs) \<and>
         c_unit cs < length hdr \<and>
         column hdr h_xianghao = Inr (c_xianghao cs) \<and> column hdr h_bianma = Inr (c_bianma cs) \<and>
         column hdr h_mingcheng = Inr (c_mingcheng cs) \<and> column hdr h_guige = Inr (c_guige cs) \<and>
         column hdr h_danjia = Inr (c_danjia cs) \<and> column hdr h_zongjia = Inr (c_zongjia cs) \<and>
         column hdr h_bizhi = Inr (c_bizhi cs) \<and> column hdr h_yuanchanguo = Inr (c_yuanchanguo cs) \<and>
         column hdr h_mudiguo = Inr (c_mudiguo cs) \<and> column hdr h_huoyuandi = Inr (c_huoyuandi cs)"
  using assms unfolding resolve_def then_e_eq_Inr Let_def iloc_col_def
  apply (elim exE conjE)
  apply (clarsimp split: if_splits)
  done

section \<open>The unit column\<close>

lemma normalize_row_append: "normalize_row (xs @ ys) = normalize_row xs @ normalize_row ys"
  by (simp add: normalize_row_def)

lemma normalize_row_shuliang: "normalize_row [Str h_shuliang] = [h_shuliang]"
  by code_simp

lemma expected_distinct: "distinct IN_HEADERS_EXPECT"
  by (simp add: IN_HEADERS_EXPECT_def hdr_defs)

lemma split_unique:
  assumes "xs @ a # ys = es" "distinct es" "n < length es" "es ! n = a"
  shows "xs = take n es \<and> ys = drop (Suc n) es"
proof -
  have "length xs < length es" and "es ! length xs = a" using assms(1) by auto
  with assms(2,3,4) have "length xs = n" by (metis nth_eq_iff_index_eq)
  with assms(1) show ?thesis by auto
qed

lemma right_of_shuliang:
  assumes "normalize_row hdr = IN_HEADERS_EXPECT" "py_index hdr (Str h_shuliang) = Inr q"
  shows "normalize_row (drop (Suc q) hdr) = drop 5 IN_HEADERS_EXPECT \<and> Suc q < length hdr"
proof -
  from py_index_Inr[OF assms(2)] have q: "q < length hdr" "hdr ! q = Str h_shuliang" by simp_all
  then have "hdr = take q hdr @ Str h_shuliang # drop (Suc q) hdr"
    by (metis id_take_nth_drop)
  then have "normalize_row hdr =
      normalize_row (take q hdr) @ normalize_row [Str h_shuliang] @ normalize_row (drop (Suc q) hdr)"
    by (metis append_Cons append_Nil normalize_row_append)
  with assms(1) have "normalize_row (take q hdr) @ h_shuliang # normalize_row (drop (Suc q) hdr) =
      IN_HEADERS_EXPECT"
    by (simp add: normalize_row_shuliang)
  moreover have "4 < length IN_HEADERS_EXPECT" "IN_HEADERS_EXPECT ! 4 = h_shuliang"
    by (simp_all add: IN_HEADERS_EXPECT_def)
  ultimately have "normalize_row (drop (Suc q) hdr) = drop (Suc 4) IN_HEADERS_EXPECT"
    using split_unique[OF _ expected_distinct] by blast
  then have d: "normalize_row (drop (Suc q) hdr) = drop 5 IN_HEADERS_EXPECT" by simp
  have "drop 5 IN_HEADERS_EXPECT \<noteq> []" by (simp add: IN_HEADERS_EXPECT_def)
  with d have "drop (Suc q) hdr \<noteq> []" by (auto simp: normalize_row_def)
  then have "Suc q < length hdr" by simp
  with d show ?thesis by simp
qed

lemma resolve_not_IndexError:
  assumes "\<And>q. py_index hdr (Str h_shuliang) = Inr q \<Longrightarrow> Suc q < length hdr"
  shows "resolve hdr \<noteq> Inl IndexError"
proof
  assume "resolve hdr = Inl IndexError"
  then show False
    unfolding resolve_def Let_def then_e_eq_Inl
    using assms py_index_Inr[of hdr "Str h_shuliang"]
    by (auto dest: py_index_Inl select_cols_Inl column_Inl simp: iloc_col_def split: if_splits)
qed

section \<open>Regular expressions: the matcher decides the language\<close>









section \<open>The numeric pattern\<close>














section \<open>Reading and formatting a matched numeral\<close>












section \<open>Money normalisation\<close>







section \<open>The shape of the transformation\<close>

lemma transform_Excel_shape:
  "transform_Excel convert df =
     (case find_header_row df IN_HEADERS_EXPECT of
        Inl e \<Rightarrow> Inl e
      | Inr h \<Rightarrow>
          (case last_non_empty df of
             Inl e \<Rightarrow> Inl e
           | Inr l \<Rightarrow>
               (case resolve (df ! h) of
                  Inl e \<Rightarrow> Inl e
                | Inr cs \<Rightarrow> Inr (out_df_Excel convert cs (drop (Suc h) (take l df))))))"
proof -
  have eq: "int l - 1 + 1 = int l" "int h + 1 = int (Suc h)" for l h by simp_all
  show ?thesis
    unfolding transform_Excel_def Let_def eq py_slice_nat then_e_def
    by (simp split: sum.splits)
qed

lemma transform_Excle_shape:
  "transform_Excle convert df =
     (case find_header_row df IN_HEADERS_EXPECT of
        Inl e \<Rightarrow> Inl e
      | Inr h \<Rightarrow>
          (case last_non_empty df of
             Inl e \<Rightarrow> Inl e
           | Inr l \<Rightarrow>
               (case resolve (df ! h) of
                  Inl e \<Rightarrow> Inl e
                | Inr cs \<Rightarrow> Inr (out_df_Excle convert cs (drop (Suc h) (take l df))))))"
proof -
  have eq: "int l - 1 + 1 = int l" "int h + 1 = int (Suc h)" for l h by simp_all
  show ?thesis
    unfolding transform_Excle_def Let_def eq py_slice_nat then_e_def
    by (simp split: sum.splits)
qed

lemma data_rows:
  assumes "last_non_empty df = Inr l"
  shows "drop (Suc h) (take l df) = map (\<lambda>i. df ! i) [h + 1..<l]"
proof -
  from last_non_empty_Inr[OF assms] have "l \<le> length df" by simp
  then show ?thesis by (simp add: drop_take_nth)
qed

lemma iloc_column_rows:
  "iloc_column (map (\<lambda>i. df ! i) [a..<b]) j = map (\<lambda>i. df ! i ! j) [a..<b]"
  by (simp add: iloc_column_def)

lemma length_out_df_Excel [simp]: "length (out_df_Excel convert cs rows) = length rows"
  by (simp add: out_df_Excel_def Let_def)

lemma length_out_df_Excle [simp]: "length (out_df_Excle convert cs rows) = length rows"
  by (simp add: out_df_Excle_def Let_def)

lemma out_df_Excel_nth:
  assumes "k < length rows"
  shows "out_df_Excel convert cs rows ! k =
     \<lparr> xianghao = to_str convert (iloc_column rows (c_xianghao cs)) ! k,
       bianhao = to_str convert (iloc_column rows (c_bianma cs)) ! k,
       name_model =
         to_str convert (iloc_column rows (c_mingcheng cs)) ! k @ asc '' '' @
         to_str convert (iloc_column rows (c_guige cs)) ! k,
       qty_unit =
         to_str convert (iloc_column rows (c_qty cs)) ! k @
         to_str convert (iloc_column rows (c_unit cs)) ! k,
       price_block =
         clean_money_keep2 convert (iloc_column rows (c_danjia cs)) ! k @ asc '' '' @
         clean_money_keep2 convert (iloc_column rows (c_zongjia cs)) ! k @ asc '' '' @
         replace_usd (to_str convert (iloc_column rows (c_bizhi cs))) ! k,
       yuanchanguo = to_str convert (iloc_column rows (c_yuanchanguo cs)) ! k,
       mudiguo = to_str convert (iloc_column rows (c_mudiguo cs)) ! k,
       huoyuandi = to_str convert (iloc_column rows (c_huoyuandi cs)) ! k,
       zhengmian = zhaozhang \<rparr>"
  using assms by (simp add: out_df_Excel_def Let_def)

lemma out_df_Excle_nth:
  assumes "k < length rows"
  shows "out_df_Excle convert cs rows ! k =
     \<lparr> xianghao = to_str convert (iloc_column rows (c_xianghao cs)) ! k,
       bianhao = to_str convert (iloc_column rows (c_bianma cs)) ! k,
       name_model =
         to_str convert (iloc_column rows (c_mingcheng cs)) ! k @ asc '' '' @
         to_str convert (iloc_column rows (c_guige cs)) ! k,
       qty_unit =
         to_str convert (iloc_column rows (c_qty cs)) ! k @
         to_str convert (iloc_column rows (c_unit cs)) ! k,
       price_block =
         clean_money_keep2 convert (iloc_column rows (c_danjia cs)) ! k @ asc '' / '' @
         clean_money_keep2 convert (iloc_column rows (c_zongjia cs)) ! k @ asc '' '' @
         replace_usd (to_str convert (iloc_column rows (c_bizhi cs))) ! k,
       yuanchanguo = to_str convert (iloc_column rows (c_yuanchanguo cs)) ! k,
       mudiguo = to_str convert (iloc_column rows (c_mudiguo cs)) ! k,
       huoyuandi = to_str convert (iloc_column rows (c_huoyuandi cs)) ! k,
       zhengmian = zhaozhang \<rparr>"
  using assms by (simp add: out_df_Excle_def Let_def)

lemma transform_Excel_Inr:
  assumes "transform_Excel convert df = Inr out"
  shows "\<exists>h l cs. find_header_row df IN_HEADERS_EXPECT = Inr h \<and> last_non_empty df = Inr l \<and>
           resolve (df ! h) = Inr cs \<and>
           out = out_df_Excel convert cs (map (\<lambda>i. df ! i) [h + 1..<l])"
proof -
  from assms obtain h l cs where
    t: "find_header_row df IN_HEADERS_EXPECT = Inr h" "last_non_empty df = Inr l"
      "resolve (df ! h) = Inr cs" "out = out_df_Excel convert cs (drop (Suc h) (take l df))"
    unfolding transform_Excel_shape by (auto split: sum.splits)
  with data_rows[OF t(2), of h] show ?thesis by auto
qed

lemma transform_Excle_Inr:
  assumes "transform_Excle convert df = Inr out"
  shows "\<exists>h l cs. find_header_row df IN_HEADERS_EXPECT = Inr h \<and> last_non_empty df = Inr l \<and>
           resolve (df ! h) = Inr cs \<and>
           out = out_df_Excle convert cs (map (\<lambda>i. df ! i) [h + 1..<l])"
proof -
  from assms obtain h l cs where
    t: "find_header_row df IN_HEADERS_EXPECT = Inr h" "last_non_empty df = Inr l"
      "resolve (df ! h) = Inr cs" "out = out_df_Excle convert cs (drop (Suc h) (take l df))"
    unfolding transform_Excle_shape by (auto split: sum.splits)
  with data_rows[OF t(2), of h] show ?thesis by auto
qed

lemma ex_last: "last_non_empty ex_sheet = Inr 5"
  by code_simp

lemma ex_transform: "transform_Excel no_downcast ex_sheet = Inr (ex_out sep_Excel)"
  by code_simp

lemma ex_transform_Excle: "transform_Excle no_downcast ex_sheet = Inr (ex_out sep_Excle)"
  by code_simp

lemma ex_index: "py_index ex_header (Str h_shuliang) = Inr 5"
  by code_simp

lemma ex_header_only:
  "find_header_row ex_sheet_header_only IN_HEADERS_EXPECT = Inr 1"
  "last_non_empty ex_sheet_header_only = Inr 1"
  "transform_Excel no_downcast ex_sheet_header_only = Inr []"
  by code_simp+

section \<open>Data Block\<close>

text \<open>
  C2. When the header row is found at index \<open>h\<close>, the last non-blank row \<open>l\<close> exists (a
  row is non-blank when one of its cells is not missing) and is not above the header.
  The Data Block, \<^verbatim>\<open>in_all.iloc[row_in_header + 1:end_idx + 1]\<close>, is the list of the rows
  \<open>h + 1, ..., l - 1\<close>, which are \<open>l - h - 1\<close> rows, and none when the header is the last
  non-blank row. The transformation fails only when the lookups in the header row fail,
  and otherwise returns the Output Sheet computed from exactly these rows, one record
  for each; on an empty Data Block that is the empty sheet and not an error.
\<close>

theorem data_block_rows:
  assumes "find_header_row df IN_HEADERS_EXPECT = Inr h"
  shows "\<exists>l. last_non_empty df = Inr l \<and> h \<le> l \<and> l < length df \<and>
           \<not> list_all isna (df ! l) \<and> (\<forall>i<length df. l < i \<longrightarrow> list_all isna (df ! i)) \<and>
           py_slice df (int h + 1) (int l - 1 + 1) = map (\<lambda>i. df ! i) [h + 1..<l] \<and>
           int (length (map (\<lambda>i. df ! i) [h + 1..<l])) = (if h < l then int l - int h - 1 else 0) \<and>
           transform_Excel convert df =
             (case resolve (df ! h) of
                Inl e \<Rightarrow> Inl e
              | Inr cs \<Rightarrow> Inr (out_df_Excel convert cs (map (\<lambda>i. df ! i) [h + 1..<l]))) \<and>
           (\<forall>cs. length (out_df_Excel convert cs (map (\<lambda>i. df ! i) [h + 1..<l])) =
              length (map (\<lambda>i. df ! i) [h + 1..<l])) \<and>
           (h = l \<longrightarrow>
              transform_Excel convert df =
                (case resolve (df ! h) of Inl e \<Rightarrow> Inl e | Inr cs \<Rightarrow> Inr []))"
proof -
  from last_after_header[OF assms] obtain l where
    l: "last_non_empty df = Inr l" "h \<le> l" "l < length df" by blast
  have eq: "int l - 1 + 1 = int l" "int h + 1 = int (Suc h)" by simp_all
  have rows: "py_slice df (int h + 1) (int l - 1 + 1) = map (\<lambda>i. df ! i) [h + 1..<l]"
    unfolding eq py_slice_nat by (rule data_rows[OF l(1)])
  have len: "int (length (map (\<lambda>i. df ! i) [h + 1..<l])) =
      (if h < l then int l - int h - 1 else 0)"
    using l(2) by auto
  have "transform_Excel convert df =
      (case resolve (df ! h) of
         Inl e \<Rightarrow> Inl e
       | Inr cs \<Rightarrow> Inr (out_df_Excel convert cs (drop (Suc h) (take l df))))"
    unfolding transform_Excel_shape using assms l(1) by simp
  then have tr: "transform_Excel convert df =
      (case resolve (df ! h) of
         Inl e \<Rightarrow> Inl e
       | Inr cs \<Rightarrow> Inr (out_df_Excel convert cs (map (\<lambda>i. df ! i) [h + 1..<l])))"
    unfolding data_rows[OF l(1)] .
  have empty: "transform_Excel convert df =
      (case resolve (df ! h) of Inl e \<Rightarrow> Inl e | Inr cs \<Rightarrow> Inr [])" if "h = l"
    unfolding tr using that by (simp add: out_df_Excel_def split: sum.splits)
  from last_non_empty_Inr[OF l(1)]
  have nb: "\<not> list_all isna (df ! l)"
    and above: "\<forall>i<length df. l < i \<longrightarrow> list_all isna (df ! i)"
    by auto
  show ?thesis
  proof (intro exI[of _ l] conjI)
    show "\<forall>cs. length (out_df_Excel convert cs (map (\<lambda>i. df ! i) [h + 1..<l])) =
        length (map (\<lambda>i. df ! i) [h + 1..<l])"
      by simp
    show "h = l \<longrightarrow>
        transform_Excel convert df =
          (case resolve (df ! h) of Inl e \<Rightarrow> Inl e | Inr cs \<Rightarrow> Inr [])"
      using empty by blast
  qed (fact l nb above rows len tr)+
qed

theorem data_block_rows_witness:
  "find_header_row ex_sheet IN_HEADERS_EXPECT = Inr 1 \<and> last_non_empty ex_sheet = Inr 5 \<and>
   py_slice ex_sheet (int 1 + 1) (int 5 - 1 + 1) = map (\<lambda>i. ex_sheet ! i) [1 + 1..<5] \<and>
   transform_Excel no_downcast ex_sheet =
     (case resolve (ex_sheet ! 1) of
        Inl e \<Rightarrow> Inl e
      | Inr cs \<Rightarrow> Inr (out_df_Excel no_downcast cs (map (\<lambda>i. ex_sheet ! i) [1 + 1..<5]))) \<and>
   transform_Excel no_downcast ex_sheet = Inr (ex_out sep_Excel) \<and>
   find_header_row ex_sheet_header_only IN_HEADERS_EXPECT = Inr 1 \<and>
   last_non_empty ex_sheet_header_only = Inr 1 \<and>
   transform_Excel no_downcast ex_sheet_header_only =
     (case resolve (ex_sheet_header_only ! 1) of Inl e \<Rightarrow> Inl e | Inr cs \<Rightarrow> Inr []) \<and>
   transform_Excel no_downcast ex_sheet_header_only = Inr []"
proof -
  from data_block_rows[OF ex_find, of no_downcast] obtain l where
    l: "last_non_empty ex_sheet = Inr l"
      "py_slice ex_sheet (int 1 + 1) (int l - 1 + 1) = map (\<lambda>i. ex_sheet ! i) [1 + 1..<l]"
      "transform_Excel no_downcast ex_sheet =
         (case resolve (ex_sheet ! 1) of
            Inl e \<Rightarrow> Inl e
          | Inr cs \<Rightarrow> Inr (out_df_Excel no_downcast cs (map (\<lambda>i. ex_sheet ! i) [1 + 1..<l])))"
    by blast
  from l(1) ex_last have l5: "l = 5" by simp
  from data_block_rows[OF ex_header_only(1), of no_downcast] obtain l' where
    l': "last_non_empty ex_sheet_header_only = Inr l'"
      "1 = l' \<longrightarrow> transform_Excel no_downcast ex_sheet_header_only =
         (case resolve (ex_sheet_header_only ! 1) of Inl e \<Rightarrow> Inl e | Inr cs \<Rightarrow> Inr [])"
    by blast
  from l'(1) ex_header_only(2) have "l' = 1" by simp
  with l'(2) have "transform_Excel no_downcast ex_sheet_header_only =
      (case resolve (ex_sheet_header_only ! 1) of Inl e \<Rightarrow> Inl e | Inr cs \<Rightarrow> Inr [])"
    by simp
  with l l5 ex_find ex_last ex_transform ex_header_only show ?thesis by blast
qed

section \<open>Fields of the Output Records\<close>





lemma ex_columns:
  "column ex_header h_danjia = Inr 10" "column ex_header h_zongjia = Inr 11"
  "column ex_header h_bizhi = Inr 12"
  by code_simp+


text \<open>
  C8. In every Output Record that either program produces, the levy-or-exemption field
  is the constant two-character literal of the source.
\<close>

theorem zhengmian_constant:
  assumes "transform_Excel convert df = Inr out \<or> transform_Excle convert df = Inr out"
  shows "\<forall>r\<in>set out. zhengmian r = [0x7167, 0x7AE0]"
  using assms
proof
  assume "transform_Excel convert df = Inr out"
  from transform_Excel_Inr[OF this] obtain h l cs where
    "out = out_df_Excel convert cs (map (\<lambda>i. df ! i) [h + 1..<l])" by blast
  then show ?thesis by (auto simp: out_df_Excel_def Let_def zhaozhang_def)
next
  assume "transform_Excle convert df = Inr out"
  from transform_Excle_Inr[OF this] obtain h l cs where
    "out = out_df_Excle convert cs (map (\<lambda>i. df ! i) [h + 1..<l])" by blast
  then show ?thesis by (auto simp: out_df_Excle_def Let_def zhaozhang_def)
qed

theorem zhengmian_constant_witness:
  "transform_Excel no_downcast ex_sheet = Inr (ex_out sep_Excel) \<and>
   ex_out sep_Excel ! 0 \<in> set (ex_out sep_Excel) \<and>
   zhengmian (ex_out sep_Excel ! 0) = [0x7167, 0x7AE0]"
proof -
  have m: "ex_out sep_Excel ! 0 \<in> set (ex_out sep_Excel)" by (simp add: ex_out_def)
  from ex_transform
  have "transform_Excel no_downcast ex_sheet = Inr (ex_out sep_Excel) \<or>
      transform_Excle no_downcast ex_sheet = Inr (ex_out sep_Excel)" by blast
  from zhengmian_constant[OF this] m ex_transform show ?thesis by blast
qed

section \<open>The unit column is in range\<close>

lemma transform_not_IndexError:
  "transform_Excel convert df \<noteq> Inl IndexError \<and> transform_Excle convert df \<noteq> Inl IndexError"
proof (cases "find_header_row df IN_HEADERS_EXPECT")
  case (Inl e)
  with find_header_row_Inl[OF Inl] show ?thesis
    by (simp add: transform_Excel_shape transform_Excle_shape)
next
  case h: (Inr h)
  show ?thesis
  proof (cases "last_non_empty df")
    case (Inl e)
    with h last_non_empty_Inl[OF Inl] show ?thesis
      by (simp add: transform_Excel_shape transform_Excle_shape)
  next
    case l: (Inr l)
    from find_header_row_Inr[OF h] have n: "normalize_row (df ! h) = IN_HEADERS_EXPECT" by simp
    have "resolve (df ! h) \<noteq> Inl IndexError"
      by (rule resolve_not_IndexError) (use right_of_shuliang[OF n] in simp)
    with h l show ?thesis
      by (cases "resolve (df ! h)") (simp_all add: transform_Excel_shape transform_Excle_shape)
  qed
qed

text \<open>
  C9. When the Header Locator succeeds on a row and the quantity header is at position
  \<open>q\<close> of that row, the cells to the right of \<open>q\<close> hold the eight expected headers that
  follow the quantity header, so \<open>q + 1\<close> is a position of the row, and a column index of
  the sheet, whose rows all have the width of the frame. Neither program ever fails with
  an index error.
\<close>

theorem unit_column_in_range:
  assumes "find_header_row df IN_HEADERS_EXPECT = Inr h"
    and "py_index (df ! h) (Str h_shuliang) = Inr q"
  shows "normalize_row (drop (q + 1) (df ! h)) =
           [h_huoyuandi, h_mudiguo, h_yuanchanguo, h_danjia, h_zongjia, h_bizhi, h_pinpai,
            h_xianghui] \<and>
         q + 1 < length (df ! h) \<and> (rect w df \<longrightarrow> q + 1 < w) \<and>
         iloc_col (df ! h) (q + 1) = Inr (q + 1) \<and>
         transform_Excel convert df \<noteq> Inl IndexError \<and>
         transform_Excle convert df \<noteq> Inl IndexError"
proof -
  from find_header_row_Inr[OF assms(1)] have n: "normalize_row (df ! h) = IN_HEADERS_EXPECT"
    and h: "h < length df" by simp_all
  from right_of_shuliang[OF n assms(2)]
  have d: "normalize_row (drop (Suc q) (df ! h)) = drop 5 IN_HEADERS_EXPECT"
    and q: "Suc q < length (df ! h)" by simp_all
  have "drop 5 IN_HEADERS_EXPECT =
      [h_huoyuandi, h_mudiguo, h_yuanchanguo, h_danjia, h_zongjia, h_bizhi, h_pinpai, h_xianghui]"
    by (simp add: IN_HEADERS_EXPECT_def)
  moreover have "q + 1 < w" if "rect w df"
    using that h q by (auto simp: rect_def)
  ultimately show ?thesis
    using d q transform_not_IndexError[of convert df] by (simp add: iloc_col_def)
qed

lemma ex_rect: "rect 15 ex_sheet"
  by (simp add: rect_def ex_sheet_def ex_header_def ex_row1_def ex_row2_def ex_row3_def
      ex_blank_def)

theorem unit_column_in_range_witness:
  "find_header_row ex_sheet IN_HEADERS_EXPECT = Inr 1 \<and>
   py_index (ex_sheet ! 1) (Str h_shuliang) = Inr 5 \<and> rect 15 ex_sheet \<and> (5::nat) + 1 < 15 \<and>
   iloc_col (ex_sheet ! 1) (5 + 1) = Inr (5 + 1)"
proof -
  have i: "py_index (ex_sheet ! 1) (Str h_shuliang) = Inr 5"
    using ex_index by (simp add: ex_sheet_def)
  from unit_column_in_range[OF ex_find i, of 15 no_downcast] ex_rect ex_find i
  show ?thesis by blast
qed

section \<open>Lookups by the raw header cells\<close>

lemma ex_padded_facts:
  "find_header_row ex_sheet_padded IN_HEADERS_EXPECT = Inr 1"
  "last_non_empty ex_sheet_padded = Inr 5"
  "resolve (ex_sheet_padded ! 1) = Inl (MissingColumn [h_danjia])"
  "find_header_row ex_sheet_padded_qty IN_HEADERS_EXPECT = Inr 1"
  "last_non_empty ex_sheet_padded_qty = Inr 5"
  "resolve (ex_sheet_padded_qty ! 1) = Inl ValueError"
  by code_simp+

lemma ex_padded:
  "transform_Excel convert ex_sheet_padded = Inl (MissingColumn [h_danjia])"
  "transform_Excle convert ex_sheet_padded = Inl (MissingColumn [h_danjia])"
  using ex_padded_facts by (simp_all add: transform_Excel_shape transform_Excle_shape)

lemma ex_padded_qty:
  "transform_Excel convert ex_sheet_padded_qty = Inl ValueError"
  "transform_Excle convert ex_sheet_padded_qty = Inl ValueError"
  using ex_padded_facts by (simp_all add: transform_Excel_shape transform_Excle_shape)

lemma ex_padded_file:
  "process_file convert ex_file_padded = Inl (MissingColumn [h_danjia])"
  by (simp add: process_file_def ex_file_padded_def ex_padded)

lemma ex_padded_skipped: "\<not> skipped ex_file_padded"
  by code_simp

lemma ex_padded_line:
  "fail_line ex_estr ex_file_padded (MissingColumn [h_danjia]) =
     [0x2717, 0x20] @ asc ''b.xls'' @ [0x20, 0x5931, 0x8D25, 0x3A, 0x20] @ asc ''not in index''"
  by (simp add: fail_line_def ex_file_padded_def)

text \<open>
  C10. The header is matched on normalised cells, and the columns are looked up by the
  raw header cells. There are sheets on which the Header Locator succeeds and the
  lookups raise: with a space in front of the unit price header, selecting the base
  columns fails; with a space behind the quantity header, \<^verbatim>\<open>list.index\<close> fails. No
  output is produced, by either program and whatever the conversion of pandas is, and
  the scan reports the file with a failure line.
\<close>

theorem raw_header_lookup_fails:
  "find_header_row ex_sheet_padded IN_HEADERS_EXPECT = Inr 1 \<and>
   transform_Excel convert ex_sheet_padded = Inl (MissingColumn [h_danjia]) \<and>
   transform_Excle convert ex_sheet_padded = Inl (MissingColumn [h_danjia]) \<and>
   find_header_row ex_sheet_padded_qty IN_HEADERS_EXPECT = Inr 1 \<and>
   transform_Excel convert ex_sheet_padded_qty = Inl ValueError \<and>
   transform_Excle convert ex_sheet_padded_qty = Inl ValueError \<and>
   process_file convert ex_file_padded = Inl (MissingColumn [h_danjia]) \<and>
   main ex_estr convert [[ex_file_padded]] =
     [[0x2717, 0x20] @ asc ''b.xls'' @ [0x20, 0x5931, 0x8D25, 0x3A, 0x20] @ asc ''not in index'']"
proof -
  have "main ex_estr convert [[ex_file_padded]] =
     [[0x2717, 0x20] @ asc ''b.xls'' @ [0x20, 0x5931, 0x8D25, 0x3A, 0x20] @ asc ''not in index'']"
    unfolding main_def
    by (simp add: ex_padded_skipped ex_padded_file ex_padded_line del: append.simps)
  then show ?thesis
    using ex_padded_facts(1,4) ex_padded[of convert] ex_padded_qty[of convert]
      ex_padded_file[of convert]
    by blast
qed

section \<open>The two programs\<close>

lemma transform_Inl_both:
  "transform_Excel convert df = Inl e \<Longrightarrow> transform_Excle convert df = Inl e"
  unfolding transform_Excel_shape transform_Excle_shape by (auto split: sum.splits)

lemma transform_Excle_eq:
  assumes "find_header_row df IN_HEADERS_EXPECT = Inr h" "last_non_empty df = Inr l"
    "resolve (df ! h) = Inr cs"
  shows "transform_Excle convert df =
    Inr (out_df_Excle convert cs (map (\<lambda>i. df ! i) [h + 1..<l]))"
  unfolding transform_Excle_shape using assms data_rows[OF assms(2), of h] by simp

text \<open>
  C4. On every sheet the two programs fail with the same error, or both produce an
  Output Sheet, of the same number of rows. In each row, with the formatted unit price,
  the formatted total price and the relabelled currency taken from the columns that the
  header names, over the rows of the Data Block, the price block of
  \<^verbatim>\<open>ExcelTransform.py\<close> is the unit price, a space, the total price, a space and the
  currency, and the price block of \<^verbatim>\<open>ExcleTransform.py\<close> is the unit price, a slash
  between two spaces, the total price, a space and the currency. The row of the second
  program is the row of the first with this other price block: all other fields are equal.
\<close>

theorem two_programs_differ_in_separator:
  "case transform_Excel convert df of
     Inl e \<Rightarrow> transform_Excle convert df = Inl e
   | Inr o1 \<Rightarrow>
       (\<exists>o2 h l cd cz cb.
          transform_Excle convert df = Inr o2 \<and> length o2 = length o1 \<and>
          find_header_row df IN_HEADERS_EXPECT = Inr h \<and> last_non_empty df = Inr l \<and>
          length o1 = length [h + 1..<l] \<and>
          column (df ! h) h_danjia = Inr cd \<and> column (df ! h) h_zongjia = Inr cz \<and>
          column (df ! h) h_bizhi = Inr cb \<and>
          (\<forall>k<length o1.
             price_block (o1 ! k) =
               clean_money_keep2 convert (map (\<lambda>i. df ! i ! cd) [h + 1..<l]) ! k @ asc '' '' @
               clean_money_keep2 convert (map (\<lambda>i. df ! i ! cz) [h + 1..<l]) ! k @ asc '' '' @
               replace_usd (to_str convert (map (\<lambda>i. df ! i ! cb) [h + 1..<l])) ! k \<and>
             price_block (o2 ! k) =
               clean_money_keep2 convert (map (\<lambda>i. df ! i ! cd) [h + 1..<l]) ! k @ asc '' / '' @
               clean_money_keep2 convert (map (\<lambda>i. df ! i ! cz) [h + 1..<l]) ! k @ asc '' '' @
               replace_usd (to_str convert (map (\<lambda>i. df ! i ! cb) [h + 1..<l])) ! k \<and>
             o2 ! k = (o1 ! k)\<lparr>price_block := price_block (o2 ! k)\<rparr>))"
proof (cases "transform_Excel convert df")
  case (Inl e)
  with transform_Inl_both[OF Inl] show ?thesis by simp
next
  case (Inr o1)
  from transform_Excel_Inr[OF Inr] obtain h l cs where
    t: "find_header_row df IN_HEADERS_EXPECT = Inr h" "last_non_empty df = Inr l"
      "resolve (df ! h) = Inr cs"
      "o1 = out_df_Excel convert cs (map (\<lambda>i. df ! i) [h + 1..<l])"
    by blast
  let ?rows = "map (\<lambda>i. df ! i) [h + 1..<l]"
  let ?o2 = "out_df_Excle convert cs ?rows"
  note r = resolve_Inr[OF t(3)]
  have o2: "transform_Excle convert df = Inr ?o2" by (rule transform_Excle_eq[OF t(1,2,3)])
  have len: "length ?o2 = length o1" "length o1 = length [h + 1..<l]" by (simp_all add: t(4))
  have row: "price_block (o1 ! k) =
        clean_money_keep2 convert (map (\<lambda>i. df ! i ! c_danjia cs) [h + 1..<l]) ! k @ asc '' '' @
        clean_money_keep2 convert (map (\<lambda>i. df ! i ! c_zongjia cs) [h + 1..<l]) ! k @ asc '' '' @
        replace_usd (to_str convert (map (\<lambda>i. df ! i ! c_bizhi cs) [h + 1..<l])) ! k \<and>
      price_block (?o2 ! k) =
        clean_money_keep2 convert (map (\<lambda>i. df ! i ! c_danjia cs) [h + 1..<l]) ! k @ asc '' / '' @
        clean_money_keep2 convert (map (\<lambda>i. df ! i ! c_zongjia cs) [h + 1..<l]) ! k @ asc '' '' @
        replace_usd (to_str convert (map (\<lambda>i. df ! i ! c_bizhi cs) [h + 1..<l])) ! k \<and>
      ?o2 ! k = (o1 ! k)\<lparr>price_block := price_block (?o2 ! k)\<rparr>"
    if "k < length o1" for k
  proof -
    from that have k: "k < length ?rows" by (simp add: t(4))
    show ?thesis
      unfolding t(4) out_df_Excel_nth[OF k] out_df_Excle_nth[OF k] iloc_column_rows by simp
  qed
  have "\<exists>o2 h l cd cz cb.
          transform_Excle convert df = Inr o2 \<and> length o2 = length o1 \<and>
          find_header_row df IN_HEADERS_EXPECT = Inr h \<and> last_non_empty df = Inr l \<and>
          length o1 = length [h + 1..<l] \<and>
          column (df ! h) h_danjia = Inr cd \<and> column (df ! h) h_zongjia = Inr cz \<and>
          column (df ! h) h_bizhi = Inr cb \<and>
          (\<forall>k<length o1.
             price_block (o1 ! k) =
               clean_money_keep2 convert (map (\<lambda>i. df ! i ! cd) [h + 1..<l]) ! k @ asc '' '' @
               clean_money_keep2 convert (map (\<lambda>i. df ! i ! cz) [h + 1..<l]) ! k @ asc '' '' @
               replace_usd (to_str convert (map (\<lambda>i. df ! i ! cb) [h + 1..<l])) ! k \<and>
             price_block (o2 ! k) =
               clean_money_keep2 convert (map (\<lambda>i. df ! i ! cd) [h + 1..<l]) ! k @ asc '' / '' @
               clean_money_keep2 convert (map (\<lambda>i. df ! i ! cz) [h + 1..<l]) ! k @ asc '' '' @
               replace_usd (to_str convert (map (\<lambda>i. df ! i ! cb) [h + 1..<l])) ! k \<and>
             o2 ! k = (o1 ! k)\<lparr>price_block := price_block (o2 ! k)\<rparr>)"
    apply (rule exI[of _ ?o2], rule exI[of _ h], rule exI[of _ l])
    apply (rule exI[of _ "c_danjia cs"], rule exI[of _ "c_zongjia cs"],
        rule exI[of _ "c_bizhi cs"])
    apply (intro conjI allI impI)
    apply (rule o2)
    apply (rule len(1))
    apply (rule t(1))
    apply (rule t(2))
    apply (rule len(2))
    using r apply blast
    using r apply blast
    using r apply blast
    apply (erule row[THEN conjunct1])
    apply (erule row[THEN conjunct2, THEN conjunct1])
    apply (erule row[THEN conjunct2, THEN conjunct2])
    done
  with Inr show ?thesis by simp
qed

theorem two_programs_differ_in_separator_witness:
  "transform_Excel no_downcast ex_sheet = Inr (ex_out sep_Excel) \<and>
   transform_Excle no_downcast ex_sheet = Inr (ex_out sep_Excle) \<and>
   price_block (ex_out sep_Excel ! 0) =
     clean_money_keep2 no_downcast (map (\<lambda>i. ex_sheet ! i ! 10) [1 + 1..<5]) ! 0 @ asc '' '' @
     clean_money_keep2 no_downcast (map (\<lambda>i. ex_sheet ! i ! 11) [1 + 1..<5]) ! 0 @ asc '' '' @
     replace_usd (to_str no_downcast (map (\<lambda>i. ex_sheet ! i ! 12) [1 + 1..<5])) ! 0 \<and>
   price_block (ex_out sep_Excle ! 0) =
     clean_money_keep2 no_downcast (map (\<lambda>i. ex_sheet ! i ! 10) [1 + 1..<5]) ! 0 @ asc '' / '' @
     clean_money_keep2 no_downcast (map (\<lambda>i. ex_sheet ! i ! 11) [1 + 1..<5]) ! 0 @ asc '' '' @
     replace_usd (to_str no_downcast (map (\<lambda>i. ex_sheet ! i ! 12) [1 + 1..<5])) ! 0 \<and>
   ex_out sep_Excle ! 0 =
     (ex_out sep_Excel ! 0)\<lparr>price_block := price_block (ex_out sep_Excle ! 0)\<rparr>"
proof -
  from two_programs_differ_in_separator[of no_downcast ex_sheet] obtain o2 h l cd cz cb where
    t: "transform_Excle no_downcast ex_sheet = Inr o2"
      "find_header_row ex_sheet IN_HEADERS_EXPECT = Inr h" "last_non_empty ex_sheet = Inr l"
      "column (ex_sheet ! h) h_danjia = Inr cd" "column (ex_sheet ! h) h_zongjia = Inr cz"
      "column (ex_sheet ! h) h_bizhi = Inr cb"
      "\<forall>k<length (ex_out sep_Excel).
         price_block (ex_out sep_Excel ! k) =
           clean_money_keep2 no_downcast (map (\<lambda>i. ex_sheet ! i ! cd) [h + 1..<l]) ! k @ asc '' '' @
           clean_money_keep2 no_downcast (map (\<lambda>i. ex_sheet ! i ! cz) [h + 1..<l]) ! k @ asc '' '' @
           replace_usd (to_str no_downcast (map (\<lambda>i. ex_sheet ! i ! cb) [h + 1..<l])) ! k \<and>
         price_block (o2 ! k) =
           clean_money_keep2 no_downcast (map (\<lambda>i. ex_sheet ! i ! cd) [h + 1..<l]) ! k @ asc '' / '' @
           clean_money_keep2 no_downcast (map (\<lambda>i. ex_sheet ! i ! cz) [h + 1..<l]) ! k @ asc '' '' @
           replace_usd (to_str no_downcast (map (\<lambda>i. ex_sheet ! i ! cb) [h + 1..<l])) ! k \<and>
         o2 ! k = (ex_out sep_Excel ! k)\<lparr>price_block := price_block (o2 ! k)\<rparr>"
    unfolding ex_transform sum.case by blast
  from t(1) ex_transform_Excle have o2: "o2 = ex_out sep_Excle" by simp
  from t(2) ex_find have h: "h = 1" by simp
  from t(3) ex_last have l: "l = 5" by simp
  have hd: "ex_sheet ! 1 = ex_header" by (simp add: ex_sheet_def)
  from t(4,5,6) h hd ex_columns have c: "cd = 10" "cz = 11" "cb = 12" by simp_all
  have "0 < length (ex_out sep_Excel)" by (simp add: ex_out_def)
  with t(7) o2 h l c ex_transform ex_transform_Excle show ?thesis by blast
qed

section \<open>The scan over the files\<close>

lemma scan_eq:
  "scan estr body fs results =
     results @ map (status_line estr body) (filter (\<lambda>f. \<not> skipped f) fs)"
proof (induction fs arbitrary: results)
  case Nil
  then show ?case by simp
next
  case (Cons f fs)
  show ?case
  proof (cases "skipped f")
    case True
    then show ?thesis by (simp add: Cons.IH)
  next
    case False
    then show ?thesis
      by (cases "body f") (auto simp: Cons.IH status_line_def)
  qed
qed

lemma main_loop_eq:
  "main_loop estr convert bases results =
     results @
     map (status_line estr (process_file convert)) (filter (\<lambda>f. \<not> skipped f) (concat bases))"
  by (induction bases arbitrary: results) (simp_all add: scan_eq)

lemma process_no_header:
  assumes "read_excel_any f = Inr df" "\<forall>r\<in>set df. normalize_row r \<noteq> IN_HEADERS_EXPECT"
  shows "process_file convert f = Inl (HeaderNotFound IN_HEADERS_EXPECT)"
    and "process_Excle convert f = Inl (HeaderNotFound IN_HEADERS_EXPECT)"
proof -
  have "find_header_row df IN_HEADERS_EXPECT = Inl (HeaderNotFound IN_HEADERS_EXPECT)"
  proof (cases "find_header_row df IN_HEADERS_EXPECT")
    case (Inl e)
    with find_header_row_Inl[OF Inl] show ?thesis by simp
  next
    case (Inr h)
    from find_header_row_Inr[OF Inr] assms(2) show ?thesis by (metis nth_mem)
  qed
  then show "process_file convert f = Inl (HeaderNotFound IN_HEADERS_EXPECT)"
    and "process_Excle convert f = Inl (HeaderNotFound IN_HEADERS_EXPECT)"
    using assms(1)
    by (simp_all add: process_file_def process_Excle_def transform_Excel_shape
        transform_Excle_shape)
qed

text \<open>
  C7. Each program yields one status line for every candidate file, in the order of the
  scan, whatever happened to the files before it: the message of the file when it was
  processed, and otherwise, for any error \<open>e\<close> raised while processing it, the cross, the
  file name, the failure word and the text of \<open>e\<close>. A sheet on which no row matches the
  header makes the file fail with the header error, in both programs, which is reported
  in this way.
\<close>

theorem per_file_errors_reported:
  "main estr convert search_dirs =
     map (status_line estr (process_file convert))
       (filter (\<lambda>f. \<not> skipped f) (concat search_dirs)) \<and>
   main_Excle estr convert base_dir =
     map (status_line estr (process_Excle convert)) (filter (\<lambda>f. \<not> skipped f) base_dir) \<and>
   (process_file convert f = Inl e \<longrightarrow>
      status_line estr (process_file convert) f =
        [0x2717, 0x20] @ fname f @ [0x20, 0x5931, 0x8D25, 0x3A, 0x20] @ estr e) \<and>
   (process_Excle convert f = Inl e \<longrightarrow>
      status_line estr (process_Excle convert) f =
        [0x2717, 0x20] @ fname f @ [0x20, 0x5931, 0x8D25, 0x3A, 0x20] @ estr e) \<and>
   (read_excel_any f = Inr df \<and> (\<forall>r\<in>set df. normalize_row r \<noteq> IN_HEADERS_EXPECT) \<longrightarrow>
      process_file convert f = Inl (HeaderNotFound IN_HEADERS_EXPECT) \<and>
      process_Excle convert f = Inl (HeaderNotFound IN_HEADERS_EXPECT))"
  using process_no_header[of f df convert]
  by (simp add: main_def main_Excle_def main_loop_eq scan_eq status_line_def fail_line_def)

lemma ex_no_header_rows: "\<forall>r\<in>set [ex_row1, ex_blank]. normalize_row r \<noteq> IN_HEADERS_EXPECT"
  by code_simp

lemma ex_main:
  "main ex_estr no_downcast [[ex_file_no_header, ex_file], [ex_file_padded]] =
     [[0x2717, 0x20] @ asc ''c.xlsx'' @ [0x20, 0x5931, 0x8D25, 0x3A, 0x20] @ asc ''no header'',
      [0x2713, 0x20] @ asc ''a.xlsx -> a_transformed.xlsx (3'' @ [0x20, 0x884C, 0x29],
      [0x2717, 0x20] @ asc ''b.xls'' @ [0x20, 0x5931, 0x8D25, 0x3A, 0x20] @ asc ''not in index'']"
  by code_simp

theorem per_file_errors_reported_witness:
  "read_excel_any ex_file_no_header = Inr [ex_row1, ex_blank] \<and>
   process_file no_downcast ex_file_no_header = Inl (HeaderNotFound IN_HEADERS_EXPECT) \<and>
   process_Excle no_downcast ex_file_no_header = Inl (HeaderNotFound IN_HEADERS_EXPECT) \<and>
   status_line ex_estr (process_file no_downcast) ex_file_no_header =
     [0x2717, 0x20] @ fname ex_file_no_header @ [0x20, 0x5931, 0x8D25, 0x3A, 0x20] @
     ex_estr (HeaderNotFound IN_HEADERS_EXPECT) \<and>
   status_line ex_estr (process_Excle no_downcast) ex_file_no_header =
     [0x2717, 0x20] @ fname ex_file_no_header @ [0x20, 0x5931, 0x8D25, 0x3A, 0x20] @
     ex_estr (HeaderNotFound IN_HEADERS_EXPECT) \<and>
   main ex_estr no_downcast [[ex_file_no_header, ex_file], [ex_file_padded]] =
     [[0x2717, 0x20] @ asc ''c.xlsx'' @ [0x20, 0x5931, 0x8D25, 0x3A, 0x20] @ asc ''no header'',
      [0x2713, 0x20] @ asc ''a.xlsx -> a_transformed.xlsx (3'' @ [0x20, 0x884C, 0x29],
      [0x2717, 0x20] @ asc ''b.xls'' @ [0x20, 0x5931, 0x8D25, 0x3A, 0x20] @ asc ''not in index'']"
proof -
  have r: "read_excel_any ex_file_no_header = Inr [ex_row1, ex_blank]"
    by (simp add: ex_file_no_header_def)
  note t = per_file_errors_reported[of ex_estr no_downcast "[]" "[]" ex_file_no_header
      "HeaderNotFound IN_HEADERS_EXPECT" "[ex_row1, ex_blank]"]
  from t r ex_no_header_rows
  have p: "process_file no_downcast ex_file_no_header = Inl (HeaderNotFound IN_HEADERS_EXPECT)"
    "process_Excle no_downcast ex_file_no_header = Inl (HeaderNotFound IN_HEADERS_EXPECT)"
    by blast+
  with t have "status_line ex_estr (process_file no_downcast) ex_file_no_header =
     [0x2717, 0x20] @ fname ex_file_no_header @ [0x20, 0x5931, 0x8D25, 0x3A, 0x20] @
     ex_estr (HeaderNotFound IN_HEADERS_EXPECT)"
    "status_line ex_estr (process_Excle no_downcast) ex_file_no_header =
     [0x2717, 0x20] @ fname ex_file_no_header @ [0x20, 0x5931, 0x8D25, 0x3A, 0x20] @
     ex_estr (HeaderNotFound IN_HEADERS_EXPECT)"
    by blast+
  with r p ex_main show ?thesis by blast
qed

section \<open>Money normalisation on a column\<close>








section \<open>A numeral beyond binary64\<close>












end
